theory Spec2Isabelle
  imports Main "HOL-Library.Word"
begin

unbundle bit_operations_syntax

section \<open>Vector values\<close>

text \<open>
  A vector register is an untagged bit pattern: \<open>__m128i\<close> is a 128 bit word, \<open>__m256i\<close> a
  256 bit word and \<open>__m512i\<close> a 512 bit word. An operation chooses the element width under
  which it reads the bits. Element \<open>i\<close> at width \<open>w\<close> is the bit range \<open>[i * w, i * w + w)\<close>:
  the machine is little endian, so element 0 of a union overlay (\<open>u64[0]\<close>, \<open>u32[0]\<close>) is
  the low end of the register.
\<close>

type_synonym m128i = "128 word"
type_synonym m256i = "256 word"
type_synonym m512i = "512 word"

definition elem :: "'a::len word \<Rightarrow> nat \<Rightarrow> 'b::len word" where
  "elem v i = ucast (drop_bit (i * LENGTH('b)) v)"

definition pack :: "'b::len word list \<Rightarrow> 'a::len word" where
  "pack ws = word_of_int (horner_sum uint (2 ^ LENGTH('b)) ws)"

text \<open>
  The instruction manuals write an element-wise operation as a loop
  \<open>FOR j := 0 to n-1: dst[j] := f j\<close>; \<open>build n f\<close> is the register that loop leaves.
\<close>

definition build :: "nat \<Rightarrow> (nat \<Rightarrow> 'b::len word) \<Rightarrow> 'a::len word" where
  "build n f = pack (map f [0..<n])"

text \<open>The low eight bits of an \<open>int\<close> argument, as an instruction reads its immediate.\<close>

definition imm8 :: "int \<Rightarrow> nat" where
  "imm8 c = nat (c mod 256)"

text \<open>The two bit field \<open>j\<close> of a shuffle control.\<close>

definition sel2 :: "nat \<Rightarrow> nat \<Rightarrow> nat" where
  "sel2 c j = (c div 4 ^ j) mod 4"

section \<open>Build targets\<close>

text \<open>
  The capability macros the headers test with \<open>#if defined\<close>. \<open>__SSE2__\<close> guards the whole
  128 bit header and the four AVX512 macros guard the whole 512 bit header, so they are
  not fields: every definition below is inside its header's guard.
\<close>

record target =
  SSSE3 :: bool
  SSE4_1 :: bool
  AVX :: bool
  AVX2 :: bool
  AVX512VL :: bool

text \<open>Two targets to evaluate on: the baseline, and one with every extension.\<close>

definition sse2_target :: target where
  "sse2_target = \<lparr>SSSE3 = False, SSE4_1 = False, AVX = False, AVX2 = False, AVX512VL = False\<rparr>"

definition avx512_target :: target where
  "avx512_target = \<lparr>SSSE3 = True, SSE4_1 = True, AVX = True, AVX2 = True, AVX512VL = True\<rparr>"

section \<open>Processor instructions used by the headers\<close>

text \<open>
  The intrinsics are the compiler's, not the repository's. Each is written here after the
  operation section of its entry in the instruction set reference; \<open>_mm_name\<close> is
  spelled \<open>x86_mm_name\<close>.
\<close>

subsection \<open>Moves between general registers and the low bits of a vector\<close>

definition asm_movq_to_xmm :: "64 word \<Rightarrow> m128i" where
  "asm_movq_to_xmm n = ucast n"

definition asm_movd_to_xmm :: "32 word \<Rightarrow> m128i" where
  "asm_movd_to_xmm n = ucast n"

definition asm_movq_from_xmm :: "m128i \<Rightarrow> 64 word" where
  "asm_movq_from_xmm a = ucast a"

definition asm_movd_from_xmm :: "m128i \<Rightarrow> 32 word" where
  "asm_movd_from_xmm a = ucast a"

subsection \<open>Set, insert and in-register shuffles of 32 and 64 bit elements\<close>

definition x86_mm_set_epi64x :: "64 word \<Rightarrow> 64 word \<Rightarrow> m128i" where
  "x86_mm_set_epi64x e1 e0 = pack [e0, e1]"

definition x86_mm_insert_epi64 :: "m128i \<Rightarrow> 64 word \<Rightarrow> int \<Rightarrow> m128i" where
  "x86_mm_insert_epi64 a i c =
     build 2 (\<lambda>j. if j = imm8 c mod 2 then i else elem a j)"

definition x86_mm_shuffle_epi32 :: "m128i \<Rightarrow> int \<Rightarrow> m128i" where
  "x86_mm_shuffle_epi32 a c = build 4 (\<lambda>j. elem a (sel2 (imm8 c) j) :: 32 word)"


definition MM_SHUFFLE :: "int \<Rightarrow> int \<Rightarrow> int \<Rightarrow> int \<Rightarrow> int" where
  "MM_SHUFFLE fp3 fp2 fp1 fp0 = push_bit 6 fp3 OR push_bit 4 fp2 OR push_bit 2 fp1 OR fp0"

definition x86_mm_shufflelo_epi16 :: "m128i \<Rightarrow> int \<Rightarrow> m128i" where
  "x86_mm_shufflelo_epi16 a c =
     build 8 (\<lambda>j. if j < 4 then elem a (sel2 (imm8 c) j) else elem a j :: 16 word)"

definition x86_mm_shufflehi_epi16 :: "m128i \<Rightarrow> int \<Rightarrow> m128i" where
  "x86_mm_shufflehi_epi16 a c =
     build 8 (\<lambda>j. if j < 4 then elem a j else elem a (4 + sel2 (imm8 c) (j - 4)) :: 16 word)"

text \<open>
  \<open>_mm_insert_ps\<close>: bits 7:6 of the control select the element of \<open>b\<close>, bits 5:4 the
  element of \<open>a\<close> it replaces, and bits 3:0 zero elements of the result.
\<close>

definition x86_mm_insert_ps :: "m128i \<Rightarrow> m128i \<Rightarrow> int \<Rightarrow> m128i" where
  "x86_mm_insert_ps a b c =
     build 4 (\<lambda>j. if bit (imm8 c) j then 0
                   else if j = sel2 (imm8 c) 2 then elem b (sel2 (imm8 c) 3)
                   else elem a j :: 32 word)"

definition x86_mm_blend_epi32 :: "m128i \<Rightarrow> m128i \<Rightarrow> int \<Rightarrow> m128i" where
  "x86_mm_blend_epi32 a b c =
     build 4 (\<lambda>j. if bit (imm8 c) j then elem b j else elem a j :: 32 word)"

definition x86_mm_blend_epi16 :: "m128i \<Rightarrow> m128i \<Rightarrow> int \<Rightarrow> m128i" where
  "x86_mm_blend_epi16 a b c =
     build 8 (\<lambda>j. if bit (imm8 c) j then elem b j else elem a j :: 16 word)"

definition x86_mm512_mask_blend_epi64 :: "8 word \<Rightarrow> m512i \<Rightarrow> m512i \<Rightarrow> m512i" where
  "x86_mm512_mask_blend_epi64 k a b =
     build 8 (\<lambda>j. if bit k j then elem b j else elem a j :: 64 word)"

definition x86_mm512_mask_blend_epi32 :: "16 word \<Rightarrow> m512i \<Rightarrow> m512i \<Rightarrow> m512i" where
  "x86_mm512_mask_blend_epi32 k a b =
     build 16 (\<lambda>j. if bit k j then elem b j else elem a j :: 32 word)"

subsection \<open>Bitwise logic\<close>

definition x86_mm_setzero_si128 :: m128i where
  "x86_mm_setzero_si128 = 0"

definition x86_mm512_setzero_si512 :: m512i where
  "x86_mm512_setzero_si512 = 0"

definition x86_mm_and_si128 :: "m128i \<Rightarrow> m128i \<Rightarrow> m128i" where
  "x86_mm_and_si128 a b = a AND b"

definition x86_mm_or_si128 :: "m128i \<Rightarrow> m128i \<Rightarrow> m128i" where
  "x86_mm_or_si128 a b = a OR b"

definition x86_mm_xor_si128 :: "m128i \<Rightarrow> m128i \<Rightarrow> m128i" where
  "x86_mm_xor_si128 a b = a XOR b"

text \<open>
  The ternary logic instruction: result bit \<open>n\<close> is bit \<open>4 * a[n] + 2 * b[n] + c[n]\<close> of
  the eight bit table. The 128 and the 512 bit forms differ in the register width only.
\<close>

definition ternary_index :: "'a::len word \<Rightarrow> 'a word \<Rightarrow> 'a word \<Rightarrow> nat \<Rightarrow> nat" where
  "ternary_index a b c n =
     4 * of_bool (bit a n) + 2 * of_bool (bit b n) + of_bool (bit c n)"

definition vpternlog :: "'a::len word \<Rightarrow> 'a word \<Rightarrow> 'a word \<Rightarrow> int \<Rightarrow> 'a word" where
  "vpternlog a b c imm =
     horner_sum of_bool 2
       (map (\<lambda>n. bit (imm8 imm) (ternary_index a b c n)) [0..<LENGTH('a)])"

definition x86_mm_ternarylogic_epi64 :: "m128i \<Rightarrow> m128i \<Rightarrow> m128i \<Rightarrow> int \<Rightarrow> m128i" where
  "x86_mm_ternarylogic_epi64 a b c imm = vpternlog a b c imm"

definition x86_mm512_ternarylogic_epi64 :: "m512i \<Rightarrow> m512i \<Rightarrow> m512i \<Rightarrow> int \<Rightarrow> m512i" where
  "x86_mm512_ternarylogic_epi64 a b c imm = vpternlog a b c imm"

subsection \<open>Shifts and rotates of packed elements\<close>

text \<open>A shift count above the element width minus one clears the element.\<close>

definition x86_mm_srli_epi64 :: "m128i \<Rightarrow> int \<Rightarrow> m128i" where
  "x86_mm_srli_epi64 a c =
     build 2 (\<lambda>j. if imm8 c > 63 then 0 else drop_bit (imm8 c) (elem a j :: 64 word))"

definition x86_mm_slli_epi64 :: "m128i \<Rightarrow> int \<Rightarrow> m128i" where
  "x86_mm_slli_epi64 a c =
     build 2 (\<lambda>j. if imm8 c > 63 then 0 else push_bit (imm8 c) (elem a j :: 64 word))"

definition x86_mm_srli_epi32 :: "m128i \<Rightarrow> int \<Rightarrow> m128i" where
  "x86_mm_srli_epi32 a c =
     build 4 (\<lambda>j. if imm8 c > 31 then 0 else drop_bit (imm8 c) (elem a j :: 32 word))"

definition x86_mm_slli_epi32 :: "m128i \<Rightarrow> int \<Rightarrow> m128i" where
  "x86_mm_slli_epi32 a c =
     build 4 (\<lambda>j. if imm8 c > 31 then 0 else push_bit (imm8 c) (elem a j :: 32 word))"

definition x86_mm_srli_epi16 :: "m128i \<Rightarrow> int \<Rightarrow> m128i" where
  "x86_mm_srli_epi16 a c =
     build 8 (\<lambda>j. if imm8 c > 15 then 0 else drop_bit (imm8 c) (elem a j :: 16 word))"

definition x86_mm_slli_epi16 :: "m128i \<Rightarrow> int \<Rightarrow> m128i" where
  "x86_mm_slli_epi16 a c =
     build 8 (\<lambda>j. if imm8 c > 15 then 0 else push_bit (imm8 c) (elem a j :: 16 word))"

text \<open>The rotate instructions take their count modulo the element width.\<close>

definition x86_mm_ror_epi64 :: "m128i \<Rightarrow> int \<Rightarrow> m128i" where
  "x86_mm_ror_epi64 a c = build 2 (\<lambda>j. word_rotr (imm8 c mod 64) (elem a j :: 64 word))"

definition x86_mm_rol_epi64 :: "m128i \<Rightarrow> int \<Rightarrow> m128i" where
  "x86_mm_rol_epi64 a c = build 2 (\<lambda>j. word_rotl (imm8 c mod 64) (elem a j :: 64 word))"

definition x86_mm_ror_epi32 :: "m128i \<Rightarrow> int \<Rightarrow> m128i" where
  "x86_mm_ror_epi32 a c = build 4 (\<lambda>j. word_rotr (imm8 c mod 32) (elem a j :: 32 word))"

definition x86_mm_rol_epi32 :: "m128i \<Rightarrow> int \<Rightarrow> m128i" where
  "x86_mm_rol_epi32 a c = build 4 (\<lambda>j. word_rotl (imm8 c mod 32) (elem a j :: 32 word))"

definition x86_mm512_ror_epi64 :: "m512i \<Rightarrow> int \<Rightarrow> m512i" where
  "x86_mm512_ror_epi64 a c = build 8 (\<lambda>j. word_rotr (imm8 c mod 64) (elem a j :: 64 word))"

definition x86_mm512_rol_epi64 :: "m512i \<Rightarrow> int \<Rightarrow> m512i" where
  "x86_mm512_rol_epi64 a c = build 8 (\<lambda>j. word_rotl (imm8 c mod 64) (elem a j :: 64 word))"

definition x86_mm512_ror_epi32 :: "m512i \<Rightarrow> int \<Rightarrow> m512i" where
  "x86_mm512_ror_epi32 a c = build 16 (\<lambda>j. word_rotr (imm8 c mod 32) (elem a j :: 32 word))"

definition x86_mm512_rol_epi32 :: "m512i \<Rightarrow> int \<Rightarrow> m512i" where
  "x86_mm512_rol_epi32 a c = build 16 (\<lambda>j. word_rotl (imm8 c mod 32) (elem a j :: 32 word))"

subsection \<open>Byte shifts, alignment and byte shuffles\<close>

text \<open>Whole register byte shifts; a count above 15 shifts everything out.\<close>

definition x86_mm_srli_si128 :: "m128i \<Rightarrow> int \<Rightarrow> m128i" where
  "x86_mm_srli_si128 a c = drop_bit (min (imm8 c) 16 * 8) a"

definition x86_mm_slli_si128 :: "m128i \<Rightarrow> int \<Rightarrow> m128i" where
  "x86_mm_slli_si128 a c = push_bit (min (imm8 c) 16 * 8) a"

text \<open>
  \<open>_mm_alignr_epi8( a, b, n )\<close>: the 32 byte value with \<open>a\<close> above \<open>b\<close>, shifted right by
  \<open>n\<close> bytes, low 16 bytes.
\<close>

definition x86_mm_alignr_epi8 :: "m128i \<Rightarrow> m128i \<Rightarrow> int \<Rightarrow> m128i" where
  "x86_mm_alignr_epi8 a b c =
     ucast (drop_bit (imm8 c * 8) (push_bit 128 (ucast a :: 256 word) OR ucast b))"

text \<open>
  The 512 bit forms shift the 128 byte value with \<open>a\<close> above \<open>b\<close> right by whole 64 or
  32 bit elements and read the count's low three or four bits.
\<close>

definition x86_mm512_alignr_epi64 :: "m512i \<Rightarrow> m512i \<Rightarrow> int \<Rightarrow> m512i" where
  "x86_mm512_alignr_epi64 a b c =
     ucast (drop_bit (64 * (imm8 c mod 8)) (push_bit 512 (ucast a :: 1024 word) OR ucast b))"

definition x86_mm512_alignr_epi32 :: "m512i \<Rightarrow> m512i \<Rightarrow> int \<Rightarrow> m512i" where
  "x86_mm512_alignr_epi32 a b c =
     ucast (drop_bit (32 * (imm8 c mod 16)) (push_bit 512 (ucast a :: 1024 word) OR ucast b))"

text \<open>
  The byte shuffle: a control byte with bit 7 set clears the result byte, otherwise its
  low four bits select a byte of \<open>a\<close>. The 512 bit form does this inside each 128 bit
  lane: byte \<open>j\<close> selects among the 16 bytes of lane \<open>j div 16\<close>.
\<close>

definition x86_mm_shuffle_epi8 :: "m128i \<Rightarrow> m128i \<Rightarrow> m128i" where
  "x86_mm_shuffle_epi8 a b =
     build 16 (\<lambda>j. if bit (elem b j :: 8 word) 7 then 0
                    else elem a (unat (elem b j :: 8 word) mod 16) :: 8 word)"

definition x86_mm512_shuffle_epi8 :: "m512i \<Rightarrow> m512i \<Rightarrow> m512i" where
  "x86_mm512_shuffle_epi8 a b =
     build 64 (\<lambda>j. if bit (elem b j :: 8 word) 7 then 0
                    else elem a (16 * (j div 16) + unat (elem b j :: 8 word) mod 16) :: 8 word)"



section \<open>Memory and loops\<close>

text \<open>
  The memory helpers take aligned pointers to vectors and count in vectors, so memory is
  an array of vector sized slots: a pointer is a slot number and \<open>p[i]\<close> is slot \<open>p + i\<close>.
  \<open>for_loop i n body\<close> is \<open>for ( ; i < n; i++ ) body\<close> on the state the body updates.
\<close>

type_synonym 'v memory = "int \<Rightarrow> 'v"

function for_loop :: "int \<Rightarrow> int \<Rightarrow> (int \<Rightarrow> 's \<Rightarrow> 's) \<Rightarrow> 's \<Rightarrow> 's" where
  "for_loop i n body s = (if i < n then for_loop (i + 1) n body (body i s) else s)"
  by pat_completeness auto
termination
  by (relation "measure (\<lambda>(i, n, body, s). nat (n - i))") auto

declare for_loop.simps [simp del]

section \<open>The 128 bit header\<close>

subsection \<open>Moves and constants\<close>

text \<open>The VEX and the legacy encoding of the move are chosen by \<open>__AVX__\<close>.\<close>

definition mm128_mov64_128 :: "target \<Rightarrow> 64 word \<Rightarrow> m128i" where
  "mm128_mov64_128 t n = (if AVX t then asm_movq_to_xmm n else asm_movq_to_xmm n)"

definition mm128_mov32_128 :: "target \<Rightarrow> 32 word \<Rightarrow> m128i" where
  "mm128_mov32_128 t n = (if AVX t then asm_movd_to_xmm n else asm_movd_to_xmm n)"

definition u64_mov128_64 :: "target \<Rightarrow> m128i \<Rightarrow> 64 word" where
  "u64_mov128_64 t a = (if AVX t then asm_movq_from_xmm a else asm_movq_from_xmm a)"

definition u32_mov128_32 :: "target \<Rightarrow> m128i \<Rightarrow> 32 word" where
  "u32_mov128_32 t a = (if AVX t then asm_movd_from_xmm a else asm_movd_from_xmm a)"

definition m128_const1_64 :: "target \<Rightarrow> 64 word \<Rightarrow> m128i" where
  "m128_const1_64 t i = x86_mm_shuffle_epi32 (mm128_mov64_128 t i) 0x44"

definition m128_const1_32 :: "target \<Rightarrow> 32 word \<Rightarrow> m128i" where
  "m128_const1_32 t i = x86_mm_shuffle_epi32 (mm128_mov32_128 t i) 0x00"

text \<open>\<open>m128_const_64( hi, lo )\<close>: an insert under \<open>__SSE4_1__\<close>, \<open>_mm_set_epi64x\<close> otherwise.\<close>

definition m128_const_64 :: "target \<Rightarrow> 64 word \<Rightarrow> 64 word \<Rightarrow> m128i" where
  "m128_const_64 t hi lo =
     (if SSE4_1 t then x86_mm_insert_epi64 (mm128_mov64_128 t lo) hi 1
      else x86_mm_set_epi64x hi lo)"


text \<open>\<open>m128_neg1\<close>: comparing a register with itself for equality sets every bit.\<close>

definition asm_pcmpeqq_self :: m128i where
  "asm_pcmpeqq_self = - 1"

definition mm128_neg1_fn :: "target \<Rightarrow> m128i" where
  "mm128_neg1_fn t = (if AVX t then asm_pcmpeqq_self else asm_pcmpeqq_self)"

subsection \<open>Insert and extract through \<open>_mm_insert_ps\<close> (defined under \<open>__SSE4_1__\<close>)\<close>

definition mm128_xim_32 :: "m128i \<Rightarrow> m128i \<Rightarrow> int \<Rightarrow> m128i" where
  "mm128_xim_32 v1 v2 c = x86_mm_insert_ps v1 v2 c"

definition mm128_insert_32 :: "target \<Rightarrow> m128i \<Rightarrow> 32 word \<Rightarrow> int \<Rightarrow> m128i" where
  "mm128_insert_32 t v i c = mm128_xim_32 v (mm128_mov32_128 t i) (push_bit 4 c)"

definition mm128_extract_32 :: "target \<Rightarrow> m128i \<Rightarrow> int \<Rightarrow> 32 word" where
  "mm128_extract_32 t v c = u32_mov128_32 t (mm128_xim_32 v v (push_bit 6 c))"

subsection \<open>Memory functions\<close>

definition m128_zero :: m128i where
  "m128_zero = x86_mm_setzero_si128"

definition memset_zero_128 :: "m128i memory \<Rightarrow> int \<Rightarrow> int \<Rightarrow> m128i memory" where
  "memset_zero_128 mem dst n = for_loop 0 n (\<lambda>i m. m(dst + i := m128_zero)) mem"

definition memset_128 :: "m128i memory \<Rightarrow> int \<Rightarrow> m128i \<Rightarrow> int \<Rightarrow> m128i memory" where
  "memset_128 mem dst a n = for_loop 0 n (\<lambda>i m. m(dst + i := a)) mem"

definition memcpy_128 :: "m128i memory \<Rightarrow> int \<Rightarrow> int \<Rightarrow> int \<Rightarrow> m128i memory" where
  "memcpy_128 mem dst src n = for_loop 0 n (\<lambda>i m. m(dst + i := m (src + i))) mem"

subsection \<open>Three input logic\<close>

definition mm128_xor3 :: "target \<Rightarrow> m128i \<Rightarrow> m128i \<Rightarrow> m128i \<Rightarrow> m128i" where
  "mm128_xor3 t a b c =
     (if AVX512VL t then x86_mm_ternarylogic_epi64 a b c 0x96
      else x86_mm_xor_si128 a (x86_mm_xor_si128 b c))"

definition mm128_xorand :: "target \<Rightarrow> m128i \<Rightarrow> m128i \<Rightarrow> m128i \<Rightarrow> m128i" where
  "mm128_xorand t a b c =
     (if AVX512VL t then x86_mm_ternarylogic_epi64 a b c 0x78
      else x86_mm_xor_si128 a (x86_mm_and_si128 b c))"

subsection \<open>Diagonal blend\<close>

text \<open>
  The replacement list of \<open>mm128_diagonal_32( v3, v2, v1, v0 )\<close> does not mention its
  parameters: it names \<open>s3, s2, s1, s0\<close>, and its outer call is to \<open>mm_blend_epi32\<close>
  (\<open>mm_blend_epi16\<close> under \<open>__SSE4_1__\<close>), not to the intrinsic \<open>_mm_blend_epi32\<close>. All six
  names are resolved where the macro is used, so they are arguments here. Without
  \<open>__AVX2__\<close> and \<open>__SSE4_1__\<close> the macro is not defined.
\<close>

definition mm128_diagonal_32 ::
  "target \<Rightarrow> (m128i \<Rightarrow> m128i \<Rightarrow> int \<Rightarrow> m128i) \<Rightarrow> (m128i \<Rightarrow> m128i \<Rightarrow> int \<Rightarrow> m128i) \<Rightarrow>
   m128i \<Rightarrow> m128i \<Rightarrow> m128i \<Rightarrow> m128i \<Rightarrow>
   m128i \<Rightarrow> m128i \<Rightarrow> m128i \<Rightarrow> m128i \<Rightarrow> m128i option"
where
  "mm128_diagonal_32 t mm_blend_epi32 mm_blend_epi16 s3 s2 s1 s0 v3 v2 v1 v0 =
     (if AVX2 t then
        Some (mm_blend_epi32 (x86_mm_blend_epi32 s3 s2 0x4) (x86_mm_blend_epi32 s1 s0 0x1) 0x3)
      else if SSE4_1 t then
        Some (mm_blend_epi16 (x86_mm_blend_epi16 s3 s2 0x30) (x86_mm_blend_epi16 s1 s0 0x03) 0x0f)
      else None)"

subsection \<open>Bit rotations\<close>

definition mm128_ror_64 :: "target \<Rightarrow> m128i \<Rightarrow> int \<Rightarrow> m128i" where
  "mm128_ror_64 t v c =
     (if AVX512VL t then x86_mm_ror_epi64 v c
      else x86_mm_or_si128 (x86_mm_srli_epi64 v c) (x86_mm_slli_epi64 v (64 - c)))"

definition mm128_rol_64 :: "target \<Rightarrow> m128i \<Rightarrow> int \<Rightarrow> m128i" where
  "mm128_rol_64 t v c =
     (if AVX512VL t then x86_mm_rol_epi64 v c
      else x86_mm_or_si128 (x86_mm_slli_epi64 v c) (x86_mm_srli_epi64 v (64 - c)))"

definition mm128_ror_32 :: "target \<Rightarrow> m128i \<Rightarrow> int \<Rightarrow> m128i" where
  "mm128_ror_32 t v c =
     (if AVX512VL t then x86_mm_ror_epi32 v c
      else x86_mm_or_si128 (x86_mm_srli_epi32 v c) (x86_mm_slli_epi32 v (32 - c)))"

definition mm128_rol_32 :: "target \<Rightarrow> m128i \<Rightarrow> int \<Rightarrow> m128i" where
  "mm128_rol_32 t v c =
     (if AVX512VL t then x86_mm_rol_epi32 v c
      else x86_mm_or_si128 (x86_mm_slli_epi32 v c) (x86_mm_srli_epi32 v (32 - c)))"

text \<open>
  The double buffered macros are statements on the two variables \<open>v1\<close> and \<open>v0\<close> they are
  given, so they map the pair of values to the pair the statements leave. Under
  \<open>__AVX512VL__\<close> the replacement list is two rotate calls whose results are not assigned.
  The other branch finishes with \<open>_mm_or_si256\<close> on its 128 bit operands; no intrinsic has
  that name (the 256 bit one is \<open>_mm256_or_si256\<close>), and it is read as the bitwise or.
\<close>

definition x86_mm_or_si256 :: "m128i \<Rightarrow> m128i \<Rightarrow> m128i" where
  "x86_mm_or_si256 a b = a OR b"

definition mm128_rorx2_64 :: "target \<Rightarrow> m128i \<times> m128i \<Rightarrow> int \<Rightarrow> m128i \<times> m128i" where
  "mm128_rorx2_64 t vv c =
     (case vv of (v1, v0) \<Rightarrow>
        if AVX512VL t then
          (let unused0 = x86_mm_ror_epi64 v0 c;
               unused1 = x86_mm_ror_epi64 v1 c
           in (v1, v0))
        else
          (let t0 = x86_mm_srli_epi64 v0 c;
               t1 = x86_mm_srli_epi64 v1 c;
               v0 = x86_mm_slli_epi64 v0 (64 - c);
               v1 = x86_mm_slli_epi64 v1 (64 - c);
               v0 = x86_mm_or_si256 v0 t0;
               v1 = x86_mm_or_si256 v1 t1
           in (v1, v0)))"

definition mm128_rolx2_64 :: "target \<Rightarrow> m128i \<times> m128i \<Rightarrow> int \<Rightarrow> m128i \<times> m128i" where
  "mm128_rolx2_64 t vv c =
     (case vv of (v1, v0) \<Rightarrow>
        if AVX512VL t then
          (let unused0 = x86_mm_rol_epi64 v0 c;
               unused1 = x86_mm_rol_epi64 v1 c
           in (v1, v0))
        else
          (let t0 = x86_mm_slli_epi64 v0 c;
               t1 = x86_mm_slli_epi64 v1 c;
               v0 = x86_mm_srli_epi64 v0 (64 - c);
               v1 = x86_mm_srli_epi64 v1 (64 - c);
               v0 = x86_mm_or_si256 v0 t0;
               v1 = x86_mm_or_si256 v1 t1
           in (v1, v0)))"

definition mm128_rorx2_32 :: "target \<Rightarrow> m128i \<times> m128i \<Rightarrow> int \<Rightarrow> m128i \<times> m128i" where
  "mm128_rorx2_32 t vv c =
     (case vv of (v1, v0) \<Rightarrow>
        if AVX512VL t then
          (let unused0 = x86_mm_ror_epi32 v0 c;
               unused1 = x86_mm_ror_epi32 v1 c
           in (v1, v0))
        else
          (let t0 = x86_mm_srli_epi32 v0 c;
               t1 = x86_mm_srli_epi32 v1 c;
               v0 = x86_mm_slli_epi32 v0 (32 - c);
               v1 = x86_mm_slli_epi32 v1 (32 - c);
               v0 = x86_mm_or_si256 v0 t0;
               v1 = x86_mm_or_si256 v1 t1
           in (v1, v0)))"

definition mm128_rolx2_32 :: "target \<Rightarrow> m128i \<times> m128i \<Rightarrow> int \<Rightarrow> m128i \<times> m128i" where
  "mm128_rolx2_32 t vv c =
     (case vv of (v1, v0) \<Rightarrow>
        if AVX512VL t then
          (let unused0 = x86_mm_rol_epi32 v0 c;
               unused1 = x86_mm_rol_epi32 v1 c
           in (v1, v0))
        else
          (let t0 = x86_mm_slli_epi32 v0 c;
               t1 = x86_mm_slli_epi32 v1 c;
               v0 = x86_mm_srli_epi32 v0 (32 - c);
               v1 = x86_mm_srli_epi32 v1 (32 - c);
               v0 = x86_mm_or_si256 v0 t0;
               v1 = x86_mm_or_si256 v1 t1
           in (v1, v0)))"

definition mm128_ror_16 :: "m128i \<Rightarrow> int \<Rightarrow> m128i" where
  "mm128_ror_16 v c = x86_mm_or_si128 (x86_mm_srli_epi16 v c) (x86_mm_slli_epi16 v (16 - c))"

definition mm128_rol_16 :: "m128i \<Rightarrow> int \<Rightarrow> m128i" where
  "mm128_rol_16 v c = x86_mm_or_si128 (x86_mm_slli_epi16 v c) (x86_mm_srli_epi16 v (16 - c))"

subsection \<open>Rotate vector elements across the register\<close>

definition mm128_swap_64 :: "m128i \<Rightarrow> m128i" where
  "mm128_swap_64 v = x86_mm_shuffle_epi32 v 0x4e"



definition mm128_shuflr_32 :: "m128i \<Rightarrow> m128i" where
  "mm128_shuflr_32 v = x86_mm_shuffle_epi32 v 0x39"

definition mm128_shufll_32 :: "m128i \<Rightarrow> m128i" where
  "mm128_shufll_32 v = x86_mm_shuffle_epi32 v 0x93"

subsection \<open>Rotate byte elements within 64 or 32 bit elements\<close>

text \<open>A byte shuffle under \<open>__SSSE3__\<close> without \<open>__AVX512VL__\<close>, the bit rotation otherwise.\<close>

definition mm128_shuflr64_24 :: "target \<Rightarrow> m128i \<Rightarrow> m128i" where
  "mm128_shuflr64_24 t v =
     (if SSSE3 t \<and> \<not> AVX512VL t then
        x86_mm_shuffle_epi8 v (x86_mm_set_epi64x 0x0a09080f0e0d0c0b 0x0201000706050403)
      else mm128_ror_64 t v 24)"

definition mm128_shuflr64_16 :: "target \<Rightarrow> m128i \<Rightarrow> m128i" where
  "mm128_shuflr64_16 t v =
     (if SSSE3 t \<and> \<not> AVX512VL t then
        x86_mm_shuffle_epi8 v (x86_mm_set_epi64x 0x09080f0e0d0c0b0a 0x0100070605040302)
      else mm128_ror_64 t v 16)"

definition mm128_swap32_16 :: "target \<Rightarrow> m128i \<Rightarrow> m128i" where
  "mm128_swap32_16 t v =
     (if SSSE3 t \<and> \<not> AVX512VL t then
        x86_mm_shuffle_epi8 v (x86_mm_set_epi64x 0x0d0c0f0e09080b0a 0x0504070601000302)
      else mm128_ror_32 t v 16)"

definition mm128_shuflr32_8 :: "target \<Rightarrow> m128i \<Rightarrow> m128i" where
  "mm128_shuflr32_8 t v =
     (if SSSE3 t \<and> \<not> AVX512VL t then
        x86_mm_shuffle_epi8 v (x86_mm_set_epi64x 0x0c0f0e0d080b0a09 0x0407060500030201)
      else mm128_ror_32 t v 8)"

subsection \<open>Endian byte swap\<close>

text \<open>
  Under \<open>__SSSE3__\<close> a byte shuffle with a constant control, otherwise 16 bit shifts and
  word shuffles. The replacement list of the SSSE3 \<open>mm128_bswap_16\<close> lacks its last closing
  parenthesis; the call it opens is modelled closed.
\<close>

definition mm128_bswap_64 :: "target \<Rightarrow> m128i \<Rightarrow> m128i" where
  "mm128_bswap_64 t v =
     (if SSSE3 t then
        x86_mm_shuffle_epi8 v (m128_const_64 t 0x08090a0b0c0d0e0f 0x0001020304050607)
      else
        (let v = x86_mm_or_si128 (x86_mm_slli_epi16 v 8) (x86_mm_srli_epi16 v 8);
             v = x86_mm_shufflelo_epi16 v (MM_SHUFFLE 0 1 2 3)
         in x86_mm_shufflehi_epi16 v (MM_SHUFFLE 0 1 2 3)))"

definition mm128_bswap_32 :: "target \<Rightarrow> m128i \<Rightarrow> m128i" where
  "mm128_bswap_32 t v =
     (if SSSE3 t then
        x86_mm_shuffle_epi8 v (m128_const_64 t 0x0c0d0e0f08090a0b 0x0405060700010203)
      else
        (let v = x86_mm_or_si128 (x86_mm_slli_epi16 v 8) (x86_mm_srli_epi16 v 8);
             v = x86_mm_shufflelo_epi16 v (MM_SHUFFLE 2 3 0 1)
         in x86_mm_shufflehi_epi16 v (MM_SHUFFLE 2 3 0 1)))"

definition mm128_bswap_16 :: "target \<Rightarrow> m128i \<Rightarrow> m128i" where
  "mm128_bswap_16 t v =
     (if SSSE3 t then
        x86_mm_shuffle_epi8 v (m128_const_64 t 0x0e0f0c0d0a0b0809 0x0607040502030001)
      else x86_mm_or_si128 (x86_mm_slli_epi16 v 8) (x86_mm_srli_epi16 v 8))"

subsection \<open>Two input shuffle-rotate\<close>

definition mm128_shufl2r_64 :: "target \<Rightarrow> m128i \<Rightarrow> m128i \<Rightarrow> m128i" where
  "mm128_shufl2r_64 t v1 v2 =
     (if SSSE3 t then x86_mm_alignr_epi8 v2 v1 8
      else x86_mm_or_si128 (x86_mm_srli_si128 v1 8) (x86_mm_slli_si128 v2 8))"

definition mm128_shufl2l_64 :: "target \<Rightarrow> m128i \<Rightarrow> m128i \<Rightarrow> m128i" where
  "mm128_shufl2l_64 t v1 v2 =
     (if SSSE3 t then x86_mm_alignr_epi8 v1 v2 8
      else x86_mm_or_si128 (x86_mm_slli_si128 v1 8) (x86_mm_srli_si128 v2 8))"

text \<open>
  The block swaps convert eight vectors from \<open>s[0..7]\<close> to \<open>d[0..7]\<close>, one assignment after
  the other: a macro with one shared control constant under \<open>__SSSE3__\<close>, a function that
  calls the single swap otherwise.
\<close>

definition mm128_block_bswap_64 :: "target \<Rightarrow> m128i memory \<Rightarrow> int \<Rightarrow> int \<Rightarrow> m128i memory" where
  "mm128_block_bswap_64 t mem d s =
     (if SSSE3 t then
        (let ctl = m128_const_64 t 0x08090a0b0c0d0e0f 0x0001020304050607
         in fold (\<lambda>i m. m(d + i := x86_mm_shuffle_epi8 (m (s + i)) ctl)) [0, 1, 2, 3, 4, 5, 6, 7] mem)
      else fold (\<lambda>i m. m(d + i := mm128_bswap_64 t (m (s + i)))) [0, 1, 2, 3, 4, 5, 6, 7] mem)"

definition mm128_block_bswap_32 :: "target \<Rightarrow> m128i memory \<Rightarrow> int \<Rightarrow> int \<Rightarrow> m128i memory" where
  "mm128_block_bswap_32 t mem d s =
     (if SSSE3 t then
        (let ctl = m128_const_64 t 0x0c0d0e0f08090a0b 0x0405060700010203
         in fold (\<lambda>i m. m(d + i := x86_mm_shuffle_epi8 (m (s + i)) ctl)) [0, 1, 2, 3, 4, 5, 6, 7] mem)
      else fold (\<lambda>i m. m(d + i := mm128_bswap_32 t (m (s + i)))) [0, 1, 2, 3, 4, 5, 6, 7] mem)"

text \<open>
  The procedure macros rotate the pair \<open>(v1, v2)\<close> in place; they map the two values to
  the two values the statements leave.
\<close>

definition mm128_vror256_64 :: "target \<Rightarrow> m128i \<times> m128i \<Rightarrow> m128i \<times> m128i" where
  "mm128_vror256_64 t vv =
     (case vv of (v1, v2) \<Rightarrow>
        if SSSE3 t then
          (let t' = x86_mm_alignr_epi8 v1 v2 8;
               v1 = x86_mm_alignr_epi8 v2 v1 8;
               v2 = t'
           in (v1, v2))
        else
          (let t' = x86_mm_or_si128 (x86_mm_srli_si128 v1 8) (x86_mm_slli_si128 v2 8);
               v2 = x86_mm_or_si128 (x86_mm_srli_si128 v2 8) (x86_mm_slli_si128 v1 8);
               v1 = t'
           in (v1, v2)))"

definition mm128_vrol256_64 :: "target \<Rightarrow> m128i \<times> m128i \<Rightarrow> m128i \<times> m128i" where
  "mm128_vrol256_64 t vv =
     (case vv of (v1, v2) \<Rightarrow>
        if SSSE3 t then
          (let t' = x86_mm_alignr_epi8 v1 v2 8;
               v2 = x86_mm_alignr_epi8 v2 v1 8;
               v1 = t'
           in (v1, v2))
        else
          (let t' = x86_mm_or_si128 (x86_mm_slli_si128 v1 8) (x86_mm_srli_si128 v2 8);
               v2 = x86_mm_or_si128 (x86_mm_slli_si128 v2 8) (x86_mm_srli_si128 v1 8);
               v1 = t'
           in (v1, v2)))"

section \<open>The 512 bit header\<close>

subsection \<open>Constants\<close>

text \<open>
  \<open>m512_const_64\<close> writes its eight arguments into \<open>u64[0..7]\<close> of a union and returns the
  union's vector member.
\<close>

definition m512_const_64 ::
  "64 word \<Rightarrow> 64 word \<Rightarrow> 64 word \<Rightarrow> 64 word \<Rightarrow> 64 word \<Rightarrow> 64 word \<Rightarrow> 64 word \<Rightarrow> 64 word \<Rightarrow> m512i"
where
  "m512_const_64 i7 i6 i5 i4 i3 i2 i1 i0 = pack [i0, i1, i2, i3, i4, i5, i6, i7]"


subsection \<open>Memory functions\<close>

definition m512_zero :: m512i where
  "m512_zero = x86_mm512_setzero_si512"

definition memset_zero_512 :: "m512i memory \<Rightarrow> int \<Rightarrow> int \<Rightarrow> m512i memory" where
  "memset_zero_512 mem dst n = for_loop 0 n (\<lambda>i m. m(dst + i := m512_zero)) mem"

definition memset_512 :: "m512i memory \<Rightarrow> int \<Rightarrow> m512i \<Rightarrow> int \<Rightarrow> m512i memory" where
  "memset_512 mem dst a n = for_loop 0 n (\<lambda>i m. m(dst + i := a)) mem"

definition memcpy_512 :: "m512i memory \<Rightarrow> int \<Rightarrow> int \<Rightarrow> int \<Rightarrow> m512i memory" where
  "memcpy_512 mem dst src n = for_loop 0 n (\<lambda>i m. m(dst + i := m (src + i))) mem"

subsection \<open>Ternary logic\<close>

definition mm512_xor3 :: "m512i \<Rightarrow> m512i \<Rightarrow> m512i \<Rightarrow> m512i" where
  "mm512_xor3 a b c = x86_mm512_ternarylogic_epi64 a b c 0x96"

definition mm512_and3 :: "m512i \<Rightarrow> m512i \<Rightarrow> m512i \<Rightarrow> m512i" where
  "mm512_and3 a b c = x86_mm512_ternarylogic_epi64 a b c 0x80"

definition mm512_or3 :: "m512i \<Rightarrow> m512i \<Rightarrow> m512i \<Rightarrow> m512i" where
  "mm512_or3 a b c = x86_mm512_ternarylogic_epi64 a b c 0xfe"

definition mm512_xorand :: "m512i \<Rightarrow> m512i \<Rightarrow> m512i \<Rightarrow> m512i" where
  "mm512_xorand a b c = x86_mm512_ternarylogic_epi64 a b c 0x78"

definition mm512_andxor :: "m512i \<Rightarrow> m512i \<Rightarrow> m512i \<Rightarrow> m512i" where
  "mm512_andxor a b c = x86_mm512_ternarylogic_epi64 a b c 0x60"

definition mm512_xoror :: "m512i \<Rightarrow> m512i \<Rightarrow> m512i \<Rightarrow> m512i" where
  "mm512_xoror a b c = x86_mm512_ternarylogic_epi64 a b c 0x1e"

definition mm512_xorandnot :: "m512i \<Rightarrow> m512i \<Rightarrow> m512i \<Rightarrow> m512i" where
  "mm512_xorandnot a b c = x86_mm512_ternarylogic_epi64 a b c 0xd2"

definition mm512_orand :: "m512i \<Rightarrow> m512i \<Rightarrow> m512i \<Rightarrow> m512i" where
  "mm512_orand a b c = x86_mm512_ternarylogic_epi64 a b c 0xf8"

definition mm512_nor :: "m512i \<Rightarrow> m512i \<Rightarrow> m512i" where
  "mm512_nor a b = x86_mm512_ternarylogic_epi64 a b b 0x01"

definition mm512_xnor :: "m512i \<Rightarrow> m512i \<Rightarrow> m512i" where
  "mm512_xnor a b = x86_mm512_ternarylogic_epi64 a b b 0x81"

definition mm512_nand :: "m512i \<Rightarrow> m512i \<Rightarrow> m512i" where
  "mm512_nand a b = x86_mm512_ternarylogic_epi64 a b b 0xef"

subsection \<open>Diagonal blending\<close>

text \<open>
  In \<open>mm512_diagonal_64\<close> the comma between the last two inner blends is missing in the
  header; they are the two operands of the blend with mask \<open>0x03\<close>.
\<close>

definition mm512_diagonal_64 ::
  "m512i \<Rightarrow> m512i \<Rightarrow> m512i \<Rightarrow> m512i \<Rightarrow> m512i \<Rightarrow> m512i \<Rightarrow> m512i \<Rightarrow> m512i \<Rightarrow> m512i"
where
  "mm512_diagonal_64 v7 v6 v5 v4 v3 v2 v1 v0 =
     x86_mm512_mask_blend_epi64 0x0f
       (x86_mm512_mask_blend_epi64 0x30
          (x86_mm512_mask_blend_epi64 0x40 v7 v6)
          (x86_mm512_mask_blend_epi64 0x40 v5 v4))
       (x86_mm512_mask_blend_epi64 0x03
          (x86_mm512_mask_blend_epi64 0x04 v3 v2)
          (x86_mm512_mask_blend_epi64 0x01 v1 v0))"

definition mm512_diagonal128_32 :: "m512i \<Rightarrow> m512i \<Rightarrow> m512i \<Rightarrow> m512i \<Rightarrow> m512i" where
  "mm512_diagonal128_32 v3 v2 v1 v0 =
     x86_mm512_mask_blend_epi32 0x3333
       (x86_mm512_mask_blend_epi32 0x4444 v3 v2)
       (x86_mm512_mask_blend_epi32 0x1111 v1 v0)"

subsection \<open>Bit rotations\<close>

definition mm512_ror_64 :: "m512i \<Rightarrow> int \<Rightarrow> m512i" where
  "mm512_ror_64 = x86_mm512_ror_epi64"

definition mm512_rol_64 :: "m512i \<Rightarrow> int \<Rightarrow> m512i" where
  "mm512_rol_64 = x86_mm512_rol_epi64"

definition mm512_ror_32 :: "m512i \<Rightarrow> int \<Rightarrow> m512i" where
  "mm512_ror_32 = x86_mm512_ror_epi32"

definition mm512_rol_32 :: "m512i \<Rightarrow> int \<Rightarrow> m512i" where
  "mm512_rol_32 = x86_mm512_rol_epi32"

subsection \<open>Reverse byte order of packed elements\<close>

definition mm512_bswap_64 :: "m512i \<Rightarrow> m512i" where
  "mm512_bswap_64 v =
     x86_mm512_shuffle_epi8 v
       (m512_const_64 0x38393a3b3c3d3e3f 0x3031323334353637
                      0x28292a2b2c2d2e2f 0x2021222324252627
                      0x18191a1b1c1d1e1f 0x1011121314151617
                      0x08090a0b0c0d0e0f 0x0001020304050607)"

definition mm512_bswap_32 :: "m512i \<Rightarrow> m512i" where
  "mm512_bswap_32 v =
     x86_mm512_shuffle_epi8 v
       (m512_const_64 0x3c3d3e3f38393a3b 0x3435363730313233
                      0x2c2d2e2f28292a2b 0x2425262720212223
                      0x1c1d1e1f18191a1b 0x1415161710111213
                      0x0c0d0e0f08090a0b 0x0405060700010203)"

definition mm512_bswap_16 :: "m512i \<Rightarrow> m512i" where
  "mm512_bswap_16 v =
     x86_mm512_shuffle_epi8 v
       (m512_const_64 0x3e3f3c3d3a3b3839 0x3637343532333031
                      0x2e2f2c2d2a2b2829 0x2627242522232021
                      0x1e1f1c1d1a1b1819 0x1617141512131011
                      0x0e0f0c0d0a0b0809 0x0607040502030001)"

subsection \<open>Shuffle-rotate elements left or right in the 512 bit vector\<close>

definition mm512_swap_256 :: "m512i \<Rightarrow> m512i" where
  "mm512_swap_256 v = x86_mm512_alignr_epi64 v v 4"



definition mm512_shuflr_128 :: "m512i \<Rightarrow> m512i" where
  "mm512_shuflr_128 v = x86_mm512_alignr_epi64 v v 2"

definition mm512_shufll_128 :: "m512i \<Rightarrow> m512i" where
  "mm512_shufll_128 v = x86_mm512_alignr_epi64 v v 6"

definition mm512_shuflr_64 :: "m512i \<Rightarrow> m512i" where
  "mm512_shuflr_64 v = x86_mm512_alignr_epi64 v v 1"

definition mm512_shufll_64 :: "m512i \<Rightarrow> m512i" where
  "mm512_shufll_64 v = x86_mm512_alignr_epi64 v v 7"

definition mm512_shuflr_32 :: "m512i \<Rightarrow> m512i" where
  "mm512_shuflr_32 v = x86_mm512_alignr_epi32 v v 1"

definition mm512_shufll_32 :: "m512i \<Rightarrow> m512i" where
  "mm512_shufll_32 v = x86_mm512_alignr_epi32 v v 15"





section \<open>Reference permutation for the endian swap\<close>

text \<open>
  Stated from the specification, not from the headers: an endian swap of elements of \<open>w\<close>
  bytes reverses the byte order within each element, so byte \<open>j\<close> of the result is byte
  \<open>reversed_in_element w j\<close> of the operand. The implementations are compared with it.
\<close>

definition reversed_in_element :: "nat \<Rightarrow> nat \<Rightarrow> nat" where
  "reversed_in_element w j = j - j mod w + (w - 1 - j mod w)"

section \<open>Elements of packed registers\<close>

lemma bit_elem:
  "bit (elem v i :: 'b::len word) n \<longleftrightarrow> n < LENGTH('b) \<and> bit v (i * LENGTH('b) + n)"
  by (simp add: elem_def bit_ucast_iff bit_drop_bit_eq add.commute)

lemma bit_pack:
  "bit (pack ws :: 'a::len word) n \<longleftrightarrow>
     n < LENGTH('a) \<and> n div LENGTH('b) < length ws \<and>
     bit (ws ! (n div LENGTH('b)) :: 'b::len word) (n mod LENGTH('b))"
  by (simp add: pack_def bit_word_of_int_iff bit_horner_sum_uint_exp_iff)

lemma elem_pack:
  assumes "i < length ws" and "(i + 1) * LENGTH('b) \<le> LENGTH('a)"
  shows "elem (pack ws :: 'a::len word) i = (ws ! i :: 'b::len word)"
proof (rule bit_word_eqI)
  fix n assume n: "n < LENGTH('b)"
  have "i * LENGTH('b) + n < LENGTH('a)" using assms(2) n by simp
  moreover have "(i * LENGTH('b) + n) div LENGTH('b) = i" using n by simp
  moreover have "(i * LENGTH('b) + n) mod LENGTH('b) = n" using n by simp
  ultimately show "bit (elem (pack ws :: 'a word) i :: 'b word) n = bit (ws ! i) n"
    using assms(1) n by (simp add: bit_elem bit_pack)
qed

lemma elem_build:
  "i < n \<Longrightarrow> (i + 1) * LENGTH('b) \<le> LENGTH('a) \<Longrightarrow>
   elem (build n f :: 'a::len word) i = (f i :: 'b::len word)"
  by (simp add: build_def elem_pack)

lemma vec_eqI:
  fixes x y :: "'a::len word"
  assumes "\<And>i. i < n \<Longrightarrow> (elem x i :: 'b::len word) = elem y i"
    and "LENGTH('a) \<le> n * LENGTH('b)"
  shows "x = y"
proof (rule bit_word_eqI)
  fix m assume m: "m < LENGTH('a)"
  let ?i = "m div LENGTH('b)" and ?r = "m mod LENGTH('b)"
  have "m < n * LENGTH('b)" using m assms(2) by simp
  then have "?i < n" by (simp add: less_mult_imp_div_less)
  then have "bit (elem x ?i :: 'b word) ?r = bit (elem y ?i :: 'b word) ?r"
    using assms(1) by simp
  then show "bit x m = bit y m"
    by (simp add: bit_elem)
qed

lemma elem_elem:
  assumes "LENGTH('b) = k * LENGTH('c)" and "i < k"
  shows "(elem (elem v j :: 'b::len word) i :: 'c::len word)
         = elem (v :: 'a::len word) (j * k + i)"
proof (rule bit_word_eqI)
  fix n assume n: "n < LENGTH('c)"
  have "i * LENGTH('c) + n < LENGTH('b)"
  proof -
    have "i * LENGTH('c) + n < (i + 1) * LENGTH('c)" using n by simp
    also have "\<dots> \<le> k * LENGTH('c)" using assms(2) by (intro mult_le_mono1) simp
    finally show ?thesis using assms(1) by simp
  qed
  then show "bit (elem (elem v j :: 'b word) i :: 'c word) n
             = bit (elem v (j * k + i) :: 'c word) n"
    using n by (simp add: bit_elem assms(1) algebra_simps)
qed

lemma elem_0_ucast:
  "LENGTH('b) \<le> LENGTH('a) \<Longrightarrow> (elem (ucast (x :: 'b::len word) :: 'a::len word) 0 :: 'b word) = x"
  by (rule bit_word_eqI) (auto simp: bit_elem bit_ucast_iff)

lemma ucast_eq_elem_0: "(ucast (v :: 'a::len word) :: 'b::len word) = elem v 0"
  by (simp add: elem_def)

section \<open>Constant construction\<close>

lemma elem_m512_const_64:
  "k < 8 \<Longrightarrow> elem (m512_const_64 i7 i6 i5 i4 i3 i2 i1 i0) k = [i0, i1, i2, i3, i4, i5, i6, i7] ! k"
  by (simp add: m512_const_64_def elem_pack)

lemma elem_mm_shuffle_epi32:
  "j < 4 \<Longrightarrow> elem (x86_mm_shuffle_epi32 a c) j = (elem a (sel2 (imm8 c) j) :: 32 word)"
  by (simp add: x86_mm_shuffle_epi32_def elem_build)

lemma elem_m128_const1_32:
  "j < 4 \<Longrightarrow> elem (m128_const1_32 t x) j = x"
  by (simp add: m128_const1_32_def elem_mm_shuffle_epi32 imm8_def sel2_def
      mm128_mov32_128_def asm_movd_to_xmm_def elem_0_ucast)

text \<open>
  C8. Constant construction puts the requested values in the requested elements: 64 bit
  element \<open>k\<close> of \<open>m512_const_64 i7 ... i0\<close> is the literal \<open>ik\<close>, for each of the eight
  \<open>k\<close>, and each of the four 32 bit elements of the broadcast \<open>m128_const1_32 x\<close> is \<open>x\<close>,
  on every build target.
\<close>

theorem const_elements:
  "elem (m512_const_64 i7 i6 i5 i4 i3 i2 i1 i0) 0 = i0 \<and>
   elem (m512_const_64 i7 i6 i5 i4 i3 i2 i1 i0) 1 = i1 \<and>
   elem (m512_const_64 i7 i6 i5 i4 i3 i2 i1 i0) 2 = i2 \<and>
   elem (m512_const_64 i7 i6 i5 i4 i3 i2 i1 i0) 3 = i3 \<and>
   elem (m512_const_64 i7 i6 i5 i4 i3 i2 i1 i0) 4 = i4 \<and>
   elem (m512_const_64 i7 i6 i5 i4 i3 i2 i1 i0) 5 = i5 \<and>
   elem (m512_const_64 i7 i6 i5 i4 i3 i2 i1 i0) 6 = i6 \<and>
   elem (m512_const_64 i7 i6 i5 i4 i3 i2 i1 i0) 7 = i7 \<and>
   elem (m128_const1_32 t x) 0 = x \<and>
   elem (m128_const1_32 t x) 1 = x \<and>
   elem (m128_const1_32 t x) 2 = x \<and>
   elem (m128_const1_32 t x) 3 = x"
  by (simp add: elem_m512_const_64 elem_m128_const1_32)

section \<open>Block memory helpers\<close>

lemma for_loop_store_frame:
  "p < dst + i \<or> dst + n \<le> p \<Longrightarrow>
   for_loop i n (\<lambda>i m. m(dst + i := f i m)) mem p = mem p"
proof (induction i n "\<lambda>i (m :: int \<Rightarrow> 'a). m(dst + i := f i m)" mem rule: for_loop.induct)
  case (1 i n mem)
  show ?case
  proof (cases "i < n")
    case True
    have "for_loop (i + 1) n (\<lambda>i m. m(dst + i := f i m)) (mem(dst + i := f i mem)) p
          = (mem(dst + i := f i mem)) p"
      using 1 True by auto
    moreover have "p \<noteq> dst + i" using 1(2) True by auto
    ultimately show ?thesis using True by (subst for_loop.simps) simp
  next
    case False
    then show ?thesis by (subst for_loop.simps) simp
  qed
qed

lemma for_loop_empty: "n \<le> i \<Longrightarrow> for_loop i n body s = s"
  by (subst for_loop.simps) simp

lemma for_loop_store_const:
  "i \<le> k \<Longrightarrow> k < n \<Longrightarrow> for_loop i n (\<lambda>i m. m(dst + i := a)) mem (dst + k) = a"
proof (induction i n "\<lambda>i (m :: int \<Rightarrow> 'a). m(dst + i := a)" mem rule: for_loop.induct)
  case (1 i n mem)
  have lt: "i < n" using 1(2,3) by simp
  show ?case
  proof (cases "i = k")
    case True
    have "for_loop (i + 1) n (\<lambda>i m. m(dst + i := a)) (mem(dst + i := a)) (dst + k)
          = (mem(dst + i := a)) (dst + k)"
      using True by (intro for_loop_store_frame) simp
    then show ?thesis using lt True by (subst for_loop.simps) simp
  next
    case False
    then have "for_loop (i + 1) n (\<lambda>i m. m(dst + i := a)) (mem(dst + i := a)) (dst + k) = a"
      using 1 lt by auto
    then show ?thesis using lt by (subst for_loop.simps) simp
  qed
qed

text \<open>
  C10. The block memory helpers write only the slots \<open>dst[0 .. n-1]\<close>: every location
  \<open>p\<close> outside that range holds after the call what it held before, for the three 128
  bit and the three 512 bit helpers; when source and destination of a copy do not
  overlap, every source slot is unchanged; and for \<open>n \<le> 0\<close> the memory is returned as
  it was.
\<close>

theorem memory_helpers_frame:
  fixes m :: "m128i memory" and M :: "m512i memory"
  shows
  "(p < dst \<or> dst + n \<le> p \<longrightarrow>
      memset_zero_128 m dst n p = m p \<and> memset_128 m dst a n p = m p \<and>
      memcpy_128 m dst src n p = m p \<and>
      memset_zero_512 M dst n p = M p \<and> memset_512 M dst A n p = M p \<and>
      memcpy_512 M dst src n p = M p) \<and>
   (src + n \<le> dst \<or> dst + n \<le> src \<longrightarrow> 0 \<le> k \<and> k < n \<longrightarrow>
      memcpy_128 m dst src n (src + k) = m (src + k) \<and>
      memcpy_512 M dst src n (src + k) = M (src + k)) \<and>
   (n \<le> 0 \<longrightarrow>
      memset_zero_128 m dst n = m \<and> memset_128 m dst a n = m \<and> memcpy_128 m dst src n = m \<and>
      memset_zero_512 M dst n = M \<and> memset_512 M dst A n = M \<and> memcpy_512 M dst src n = M)"
proof (intro conjI impI)
  assume "p < dst \<or> dst + n \<le> p"
  then have p: "p < dst + 0 \<or> dst + n \<le> p" by simp
  show "memset_zero_128 m dst n p = m p" unfolding memset_zero_128_def
    by (rule for_loop_store_frame [OF p])
  show "memset_128 m dst a n p = m p" unfolding memset_128_def
    by (rule for_loop_store_frame [OF p])
  show "memcpy_128 m dst src n p = m p" unfolding memcpy_128_def
    by (rule for_loop_store_frame [OF p])
  show "memset_zero_512 M dst n p = M p" unfolding memset_zero_512_def
    by (rule for_loop_store_frame [OF p])
  show "memset_512 M dst A n p = M p" unfolding memset_512_def
    by (rule for_loop_store_frame [OF p])
  show "memcpy_512 M dst src n p = M p" unfolding memcpy_512_def
    by (rule for_loop_store_frame [OF p])
next
  assume "src + n \<le> dst \<or> dst + n \<le> src" and "0 \<le> k \<and> k < n"
  then have p: "src + k < dst + 0 \<or> dst + n \<le> src + k" by auto
  show "memcpy_128 m dst src n (src + k) = m (src + k)" unfolding memcpy_128_def
    by (rule for_loop_store_frame [OF p])
  show "memcpy_512 M dst src n (src + k) = M (src + k)" unfolding memcpy_512_def
    by (rule for_loop_store_frame [OF p])
next
  assume n: "n \<le> 0"
  show "memset_zero_128 m dst n = m" unfolding memset_zero_128_def
    by (rule for_loop_empty [OF n])
  show "memset_128 m dst a n = m" unfolding memset_128_def
    by (rule for_loop_empty [OF n])
  show "memcpy_128 m dst src n = m" unfolding memcpy_128_def
    by (rule for_loop_empty [OF n])
  show "memset_zero_512 M dst n = M" unfolding memset_zero_512_def
    by (rule for_loop_empty [OF n])
  show "memset_512 M dst A n = M" unfolding memset_512_def
    by (rule for_loop_empty [OF n])
  show "memcpy_512 M dst src n = M" unfolding memcpy_512_def
    by (rule for_loop_empty [OF n])
qed

text \<open>The slots in range are written: the set helpers leave the value in each of them.\<close>

lemma memset_writes:
  assumes "0 \<le> k" and "k < n"
  shows "memset_128 m dst a n (dst + k) = a"
    and "memset_zero_128 m dst n (dst + k) = 0"
    and "memset_512 M dst A n (dst + k) = A"
    and "memset_zero_512 M dst n (dst + k) = 0"
  unfolding memset_128_def memset_zero_128_def memset_512_def memset_zero_512_def
    m128_zero_def m512_zero_def x86_mm_setzero_si128_def x86_mm512_setzero_si512_def
  by (rule for_loop_store_const [OF assms])+

theorem memory_helpers_frame_witness:
  "memset_zero_128 (\<lambda>_. 7) 10 2 12 = 7 \<and> memset_128 (\<lambda>_. 7) 10 1 2 12 = 7 \<and>
   memcpy_128 (\<lambda>_. 7) 10 20 2 12 = 7 \<and>
   memset_zero_512 (\<lambda>_. 7) 10 2 12 = 7 \<and> memset_512 (\<lambda>_. 7) 10 1 2 12 = 7 \<and>
   memcpy_512 (\<lambda>_. 7) 10 20 2 12 = 7 \<and>
   memcpy_128 (\<lambda>_. 7) 10 20 2 (20 + 1) = 7 \<and>
   memcpy_512 (\<lambda>_. 7) 10 20 2 (20 + 1) = 7 \<and>
   memset_zero_128 (\<lambda>_. 7) 10 (-1) = (\<lambda>_. 7) \<and> memset_128 (\<lambda>_. 7) 10 1 (-1) = (\<lambda>_. 7) \<and>
   memcpy_128 (\<lambda>_. 7) 10 20 (-1) = (\<lambda>_. 7) \<and>
   memset_zero_512 (\<lambda>_. 7) 10 (-1) = (\<lambda>_. 7) \<and> memset_512 (\<lambda>_. 7) 10 1 (-1) = (\<lambda>_. 7) \<and>
   memcpy_512 (\<lambda>_. 7) 10 20 (-1) = (\<lambda>_. 7)"
  using memory_helpers_frame [of 12 10 2 "\<lambda>_. 7" 1 20 "\<lambda>_. 7" 1 1]
        memory_helpers_frame [of 12 10 "-1" "\<lambda>_. 7" 1 20 "\<lambda>_. 7" 1 1]
  by simp

section \<open>Insert and extract\<close>

lemma small_index_cases: "0 \<le> c \<Longrightarrow> c < 4 \<Longrightarrow> c = 0 \<or> c = 1 \<or> c = 2 \<or> c = (3::int)"
  by arith

lemma elem_mm_insert_ps:
  "j < 4 \<Longrightarrow> elem (x86_mm_insert_ps a b c) j =
     (if bit (imm8 c) j then 0
      else if j = sel2 (imm8 c) 2 then elem b (sel2 (imm8 c) 3)
      else elem a j :: 32 word)"
  by (simp add: x86_mm_insert_ps_def elem_build)

lemma insert_control:
  "0 \<le> c \<Longrightarrow> c < 4 \<Longrightarrow>
   sel2 (imm8 (push_bit 4 c)) 2 = nat c \<and>
   sel2 (imm8 (push_bit 4 c)) 3 = 0 \<and>
   \<not> bit (imm8 (push_bit 4 c)) 0 \<and> \<not> bit (imm8 (push_bit 4 c)) 1 \<and>
   \<not> bit (imm8 (push_bit 4 c)) 2 \<and> \<not> bit (imm8 (push_bit 4 c)) 3"
  using small_index_cases [of c]
  by (auto simp: imm8_def sel2_def push_bit_eq_mult bit_iff_odd)

lemma extract_control:
  "0 \<le> c \<Longrightarrow> c < 4 \<Longrightarrow>
   sel2 (imm8 (push_bit 6 c)) 2 = 0 \<and> sel2 (imm8 (push_bit 6 c)) 3 = nat c \<and>
   \<not> bit (imm8 (push_bit 6 c)) 0"
  using small_index_cases [of c]
  by (auto simp: imm8_def sel2_def push_bit_eq_mult bit_iff_odd)

lemma elem_mm128_insert_32:
  assumes "0 \<le> c" "c < 4" "j < 4"
  shows "elem (mm128_insert_32 t v i c) j = (if j = nat c then i else elem v j)"
proof -
  have "j = 0 \<or> j = 1 \<or> j = 2 \<or> j = 3"
    using assms(3) by arith
  then have b: "\<not> bit (imm8 (push_bit 4 c)) j"
    using insert_control [OF assms(1,2)] by auto
  show ?thesis
    using insert_control [OF assms(1,2)] b assms(3)
    by (simp add: mm128_insert_32_def mm128_xim_32_def elem_mm_insert_ps
        mm128_mov32_128_def asm_movd_to_xmm_def elem_0_ucast)
qed

lemma mm128_extract_32_elem:
  assumes "0 \<le> c" "c < 4"
  shows "mm128_extract_32 t v c = elem v (nat c)"
  using extract_control [OF assms]
  by (simp add: mm128_extract_32_def mm128_xim_32_def u32_mov128_32_def
      asm_movd_from_xmm_def ucast_eq_elem_0 elem_mm_insert_ps)

text \<open>
  C9. For an element index \<open>c\<close> in \<open>[0, 4)\<close>, extracting element \<open>c\<close> after inserting \<open>i\<close> at
  element \<open>c\<close> returns \<open>i\<close>, and the insert leaves the other three 32 bit elements of \<open>v\<close>
  as they were.
\<close>

theorem insert_extract_32:
  assumes "0 \<le> c" and "c < 4"
  shows "mm128_extract_32 t' (mm128_insert_32 t v i c) c = i \<and>
         (\<forall>j<4. j \<noteq> nat c \<longrightarrow> elem (mm128_insert_32 t v i c) j = (elem v j :: 32 word))"
proof -
  have "nat c < 4" using assms by simp
  then show ?thesis
    using assms by (simp add: mm128_extract_32_elem elem_mm128_insert_32)
qed

theorem insert_extract_32_witness:
  "mm128_extract_32 \<lparr>SSSE3 = True, SSE4_1 = True, AVX = False, AVX2 = False, AVX512VL = False\<rparr>
     (mm128_insert_32 \<lparr>SSSE3 = True, SSE4_1 = True, AVX = False, AVX2 = False, AVX512VL = False\<rparr>
        0x00000004000000030000000200000001 0xDEADBEEF 2) 2 = 0xDEADBEEF \<and>
   elem (mm128_insert_32 \<lparr>SSSE3 = True, SSE4_1 = True, AVX = False, AVX2 = False, AVX512VL = False\<rparr>
        0x00000004000000030000000200000001 0xDEADBEEF 2) 1
     = (elem (0x00000004000000030000000200000001 :: m128i) 1 :: 32 word)"
proof -
  let ?t = "\<lparr>SSSE3 = True, SSE4_1 = True, AVX = False, AVX2 = False, AVX512VL = False\<rparr>"
  have c: "(0::int) \<le> 2" "(2::int) < 4" by simp_all
  note r = insert_extract_32 [OF c, of ?t ?t "0x00000004000000030000000200000001" "0xDEADBEEF"]
  have "(1::nat) < 4 \<and> 1 \<noteq> nat 2" by simp
  with r show ?thesis by blast
qed

section \<open>Element-wise operations\<close>

lemma elem_build_lt:
  "i < n \<Longrightarrow> n * LENGTH('b) \<le> LENGTH('a) \<Longrightarrow>
   elem (build n f :: 'a::len word) i = (f i :: 'b::len word)"
proof (rule elem_build)
  assume "i < n" and le: "n * LENGTH('b) \<le> LENGTH('a)"
  then have "(i + 1) * LENGTH('b) \<le> n * LENGTH('b)" by (intro mult_le_mono1) simp
  then show "(i + 1) * LENGTH('b) \<le> LENGTH('a)" using le by simp
qed

lemma build_cong:
  assumes "\<And>j. j < n \<Longrightarrow> f j = g j"
  shows "build n f = build n g"
proof -
  have "map f [0..<n] = map g [0..<n]" using assms by simp
  then show ?thesis unfolding build_def by (rule arg_cong)
qed

lemma build_elem:
  "LENGTH('a) = n * LENGTH('b) \<Longrightarrow> build n (\<lambda>j. elem v j :: 'b::len word) = (v :: 'a::len word)"
  by (rule vec_eqI [where n = n and 'b = 'b]) (simp_all add: elem_build_lt)

lemma build_build:
  "n * LENGTH('b) \<le> LENGTH('a) \<Longrightarrow>
   build n (\<lambda>j. f j (elem (build n g :: 'a::len word) j :: 'b::len word)) = build n (\<lambda>j. f j (g j))"
  by (rule build_cong) (simp add: elem_build_lt)

lemma elem_OR: "(elem (a OR b) i :: 'b::len word) = elem a i OR elem b i"
  by (rule bit_word_eqI) (auto simp: bit_elem bit_or_iff)

section \<open>Enumerating the elements of a register\<close>

lemma upt_4: "[0..<4] = [0, 1, 2, 3]"
  by code_simp

lemma upt_8: "[0..<8] = [0, 1, 2, 3, 4, 5, 6, 7]"
  by code_simp

lemma upt_16: "[0..<16] = [0, 1, 2, 3, 4, 5, 6, 7, 8, 9, 10, 11, 12, 13, 14, 15]"
  by code_simp


lemma upt_64: "[0..<64] =
  [0, 1, 2, 3, 4, 5, 6, 7, 8, 9, 10, 11, 12, 13, 14, 15] @
  [16, 17, 18, 19, 20, 21, 22, 23, 24, 25, 26, 27, 28, 29, 30, 31] @
  [32, 33, 34, 35, 36, 37, 38, 39, 40, 41, 42, 43, 44, 45, 46, 47] @
  [48, 49, 50, 51, 52, 53, 54, 55, 56, 57, 58, 59, 60, 61, 62, 63]"
  by code_simp

lemma vec_eq_map:
  fixes x y :: "'a::len word"
  assumes "map (\<lambda>j. elem x j :: 'b::len word) [0..<n] = map (\<lambda>j. elem y j) [0..<n]"
    and "LENGTH('a) \<le> n * LENGTH('b)"
  shows "x = y"
proof (rule vec_eqI [where n = n and 'b = 'b])
  fix i assume i: "i < n"
  with assms(1) show "(elem x i :: 'b word) = elem y i" by simp
qed (rule assms(2))

lemma elem_numeral:
  "(elem (numeral k :: 'a::len word) i :: 'b::len word)
     = ucast (drop_bit (i * LENGTH('b)) (numeral k :: 'a word))"
  by (simp add: elem_def)

text \<open>Bytes of 16 and 64 bit elements, and 16 bit parts of 64 bit elements.\<close>

lemma elem_8_of_16:
  "(elem (x :: 'a::len word) i :: 8 word) = elem (elem x (i div 2) :: 16 word) (i mod 2)"
  by (simp add: elem_elem [where k = 2])

lemma elem_8_of_64:
  "(elem (x :: 'a::len word) i :: 8 word) = elem (elem x (i div 8) :: 64 word) (i mod 8)"
  by (simp add: elem_elem [where k = 8])


lemma elem_8_in_16:
  "i < 2 \<Longrightarrow> (elem (elem (x :: 'a::len word) j :: 16 word) i :: 8 word) = elem x (j * 2 + i)"
  by (rule elem_elem) simp_all

lemma elem_8_rotl_8:
  "i < 2 \<Longrightarrow> (elem (word_rotl 8 (w :: 16 word)) i :: 8 word) = elem w (1 - i)"
proof (rule bit_word_eqI)
  fix n assume "n < LENGTH(8)"
  then have n: "n < 8" by simp
  assume "i < 2"
  then consider "i = 0" | "i = 1" by arith
  then show "bit (elem (word_rotl 8 w) i :: 8 word) n = bit (elem w (1 - i) :: 8 word) n"
  proof cases
    case 1
    have "(n + 8) mod 16 = n + 8" using n by simp
    then show ?thesis using n 1
      by (simp add: bit_elem bit_word_rotl_iff) (simp only: add.commute)
  next
    case 2
    have "(8 + n + 8) mod 16 = n" "(n + 8 + 8) mod 16 = n" using n by simp_all
    then show ?thesis using n 2 by (simp add: bit_elem bit_word_rotl_iff)
  qed
qed

section \<open>Rotation by shifts\<close>

lemma rotr_by_shifts:
  fixes x :: "'a::len word"
  assumes "k < LENGTH('a)"
  shows "drop_bit k x OR push_bit (LENGTH('a) - k) x = word_rotr k x"
proof (rule bit_word_eqI)
  fix n assume n: "n < LENGTH('a)"
  show "bit (drop_bit k x OR push_bit (LENGTH('a) - k) x) n = bit (word_rotr k x) n"
  proof (cases "n + k < LENGTH('a)")
    case True
    then have "\<not> LENGTH('a) - k \<le> n" by arith
    then show ?thesis using n True
      by (simp add: bit_or_iff bit_drop_bit_eq bit_push_bit_iff bit_word_rotr_iff add.commute)
  next
    case False
    then have m: "(n + k) mod LENGTH('a) = n + k - LENGTH('a)"
      using n assms by (simp add: le_mod_geq)
    have "\<not> bit x (k + n)" using False by (auto dest: bit_imp_le_length)
    moreover have "n - (LENGTH('a) - k) = n + k - LENGTH('a)" using False assms by simp
    moreover have "LENGTH('a) - k \<le> n" using False by arith
    ultimately show ?thesis using n assms False
      by (simp add: bit_or_iff bit_drop_bit_eq bit_push_bit_iff bit_word_rotr_iff m)
  qed
qed

lemma rotl_by_shifts:
  fixes x :: "'a::len word"
  assumes "k < LENGTH('a)"
  shows "push_bit k x OR drop_bit (LENGTH('a) - k) x = word_rotl k x"
proof (cases "k = 0")
  case True
  then show ?thesis
    by (intro bit_word_eqI) (simp add: bit_or_iff bit_drop_bit_eq bit_word_rotl_iff)
next
  case False
  then have "LENGTH('a) - k < LENGTH('a)" using assms by simp
  from rotr_by_shifts [OF this, of x] have
    "drop_bit (LENGTH('a) - k) x OR push_bit k x = word_rotr (LENGTH('a) - k) x"
    using assms by simp
  then show ?thesis using assms
    by (simp add: word_rotl_eq_word_rotr or.commute)
qed

lemma imm8_small: "0 \<le> c \<Longrightarrow> c < 256 \<Longrightarrow> imm8 c = nat c"
  by (simp add: imm8_def)

lemma build_OR:
  "LENGTH('a) = n * LENGTH('b) \<Longrightarrow>
   (build n f :: 'a::len word) OR build n g = build n (\<lambda>j. f j OR g j :: 'b::len word)"
  by (rule vec_eqI [where n = n and 'b = 'b]) (simp_all add: elem_OR elem_build_lt)

lemma shift_or_ror:
  fixes e :: "'a::len word"
  assumes "0 \<le> c" and "c < w" and "w = int LENGTH('a)" and "m = LENGTH('a) - 1"
    and "LENGTH('a) < 256"
  shows "(if imm8 c > m then 0 else drop_bit (imm8 c) e) OR
         (if imm8 (w - c) > m then 0 else push_bit (imm8 (w - c)) e)
         = word_rotr (nat c) e"
proof -
  have c: "imm8 c = nat c" using assms by (simp add: imm8_small)
  have "0 \<le> w - c" "w - c < 256" using assms by simp_all
  then have "imm8 (w - c) = nat (w - c)" by (rule imm8_small)
  then have d: "imm8 (w - c) = LENGTH('a) - nat c"
    using assms by (simp add: nat_diff_distrib')
  have k: "nat c < LENGTH('a)" using assms by simp
  have z: "push_bit (LENGTH('a) - nat c) e = 0" if "LENGTH('a) - 1 < LENGTH('a) - nat c"
  proof -
    from that have "nat c = 0" by arith
    then show ?thesis by simp
  qed
  show ?thesis
    using rotr_by_shifts [OF k, of e] k z by (auto simp: c d assms(4))
qed

lemma shift_or_rol:
  fixes e :: "'a::len word"
  assumes "0 \<le> c" and "c < w" and "w = int LENGTH('a)" and "m = LENGTH('a) - 1"
    and "LENGTH('a) < 256"
  shows "(if imm8 c > m then 0 else push_bit (imm8 c) e) OR
         (if imm8 (w - c) > m then 0 else drop_bit (imm8 (w - c)) e)
         = word_rotl (nat c) e"
proof -
  have c: "imm8 c = nat c" using assms by (simp add: imm8_small)
  have "0 \<le> w - c" "w - c < 256" using assms by simp_all
  then have "imm8 (w - c) = nat (w - c)" by (rule imm8_small)
  then have d: "imm8 (w - c) = LENGTH('a) - nat c"
    using assms by (simp add: nat_diff_distrib')
  have k: "nat c < LENGTH('a)" using assms by simp
  have z: "drop_bit (LENGTH('a) - nat c) e = 0" if "LENGTH('a) - 1 < LENGTH('a) - nat c"
  proof -
    from that have "nat c = 0" by arith
    then show ?thesis by simp
  qed
  show ?thesis
    using rotl_by_shifts [OF k, of e] k z by (auto simp: c d assms(4))
qed

lemma rot_count: "0 \<le> c \<Longrightarrow> c < 64 \<Longrightarrow> imm8 c mod 64 = nat c"
  "0 \<le> c \<Longrightarrow> c < 32 \<Longrightarrow> imm8 c mod 32 = nat c"
  by (simp_all add: imm8_small)

lemma mm128_ror_64_elems:
  assumes "0 \<le> c" and "c < 64"
  shows "mm128_ror_64 t v c = build 2 (\<lambda>j. word_rotr (nat c) (elem v j :: 64 word))"
  using assms
  by (simp add: mm128_ror_64_def x86_mm_ror_epi64_def x86_mm_or_si128_def
      x86_mm_srli_epi64_def x86_mm_slli_epi64_def build_OR rot_count shift_or_ror)


lemma mm128_rol_64_elems:
  assumes "0 \<le> c" and "c < 64"
  shows "mm128_rol_64 t v c = build 2 (\<lambda>j. word_rotl (nat c) (elem v j :: 64 word))"
  using assms
  by (simp add: mm128_rol_64_def x86_mm_rol_epi64_def x86_mm_or_si128_def
      x86_mm_srli_epi64_def x86_mm_slli_epi64_def build_OR rot_count shift_or_rol)

lemma mm128_ror_32_elems:
  assumes "0 \<le> c" and "c < 32"
  shows "mm128_ror_32 t v c = build 4 (\<lambda>j. word_rotr (nat c) (elem v j :: 32 word))"
  using assms
  by (simp add: mm128_ror_32_def x86_mm_ror_epi32_def x86_mm_or_si128_def
      x86_mm_srli_epi32_def x86_mm_slli_epi32_def build_OR rot_count shift_or_ror)

lemma mm128_rol_32_elems:
  assumes "0 \<le> c" and "c < 32"
  shows "mm128_rol_32 t v c = build 4 (\<lambda>j. word_rotl (nat c) (elem v j :: 32 word))"
  using assms
  by (simp add: mm128_rol_32_def x86_mm_rol_epi32_def x86_mm_or_si128_def
      x86_mm_srli_epi32_def x86_mm_slli_epi32_def build_OR rot_count shift_or_rol)

lemma mm128_ror_16_elems:
  assumes "0 \<le> c" and "c < 16"
  shows "mm128_ror_16 v c = build 8 (\<lambda>j. word_rotr (nat c) (elem v j :: 16 word))"
  using assms
  by (simp add: mm128_ror_16_def x86_mm_or_si128_def
      x86_mm_srli_epi16_def x86_mm_slli_epi16_def build_OR shift_or_ror)

lemma mm128_rol_16_elems:
  assumes "0 \<le> c" and "c < 16"
  shows "mm128_rol_16 v c = build 8 (\<lambda>j. word_rotl (nat c) (elem v j :: 16 word))"
  using assms
  by (simp add: mm128_rol_16_def x86_mm_or_si128_def
      x86_mm_srli_epi16_def x86_mm_slli_epi16_def build_OR shift_or_rol)

lemma mm512_rot_64_elems:
  assumes "0 \<le> c" and "c < 64"
  shows "mm512_ror_64 v c = build 8 (\<lambda>j. word_rotr (nat c) (elem v j :: 64 word))"
    and "mm512_rol_64 v c = build 8 (\<lambda>j. word_rotl (nat c) (elem v j :: 64 word))"
  using assms
  by (simp_all add: mm512_ror_64_def mm512_rol_64_def x86_mm512_ror_epi64_def
      x86_mm512_rol_epi64_def rot_count)

lemma mm512_rot_32_elems:
  assumes "0 \<le> c" and "c < 32"
  shows "mm512_ror_32 v c = build 16 (\<lambda>j. word_rotr (nat c) (elem v j :: 32 word))"
    and "mm512_rol_32 v c = build 16 (\<lambda>j. word_rotl (nat c) (elem v j :: 32 word))"
  using assms
  by (simp_all add: mm512_ror_32_def mm512_rol_32_def x86_mm512_ror_epi32_def
      x86_mm512_rol_epi32_def rot_count)

lemma rotl_rotr_elems:
  "LENGTH('a) = n * LENGTH('b) \<Longrightarrow>
   build n (\<lambda>j. word_rotl k (elem (build n (\<lambda>j. word_rotr k (elem v j :: 'b::len word)) :: 'a::len word) j :: 'b word))
   = (v :: 'a word)"
  by (simp add: build_build [where f = "\<lambda>j. word_rotl k"] build_elem)

text \<open>
  C3. Rotating right and then left by the same amount \<open>k\<close> in \<open>[0, w)\<close> gives the vector
  back, for 64 and 32 bit elements of 128 bit vectors on every target (the rotate
  instruction under \<open>__AVX512VL__\<close>, shift and or otherwise), for 16 bit elements (shift
  and or on every target), and for 64 and 32 bit elements of 512 bit vectors.
\<close>

theorem rotate_left_after_right:
  assumes "0 \<le> k"
  shows "(k < 64 \<longrightarrow> mm128_rol_64 t (mm128_ror_64 t v k) k = v \<and>
                      mm512_rol_64 (mm512_ror_64 V k) k = V) \<and>
         (k < 32 \<longrightarrow> mm128_rol_32 t (mm128_ror_32 t v k) k = v \<and>
                      mm512_rol_32 (mm512_ror_32 V k) k = V) \<and>
         (k < 16 \<longrightarrow> mm128_rol_16 (mm128_ror_16 v k) k = v)"
  using assms
  by (simp add: mm128_ror_64_elems mm128_rol_64_elems mm128_ror_32_elems mm128_rol_32_elems
      mm128_ror_16_elems mm128_rol_16_elems mm512_rot_64_elems mm512_rot_32_elems
      rotl_rotr_elems)

theorem rotate_left_after_right_witness:
  "mm128_rol_64 sse2_target (mm128_ror_64 sse2_target 5 3) 3 = 5 \<and>
   mm128_rol_64 avx512_target (mm128_ror_64 avx512_target 5 3) 3 = 5 \<and>
   mm512_rol_64 (mm512_ror_64 5 3) 3 = 5 \<and>
   mm128_rol_32 sse2_target (mm128_ror_32 sse2_target 5 3) 3 = 5 \<and>
   mm128_rol_32 avx512_target (mm128_ror_32 avx512_target 5 3) 3 = 5 \<and>
   mm512_rol_32 (mm512_ror_32 5 3) 3 = 5 \<and>
   mm128_rol_16 (mm128_ror_16 5 3) 3 = 5"
  using rotate_left_after_right [of 3 sse2_target 5 5]
        rotate_left_after_right [of 3 avx512_target 5 5]
  by simp

section \<open>Double buffered rotation\<close>

lemma rorx2_without_avx512vl:
  assumes "\<not> AVX512VL t"
  shows "mm128_rorx2_64 t (v1, v0) c = (mm128_ror_64 t v1 c, mm128_ror_64 t v0 c)"
    and "mm128_rolx2_64 t (v1, v0) c = (mm128_rol_64 t v1 c, mm128_rol_64 t v0 c)"
    and "mm128_rorx2_32 t (v1, v0) c = (mm128_ror_32 t v1 c, mm128_ror_32 t v0 c)"
    and "mm128_rolx2_32 t (v1, v0) c = (mm128_rol_32 t v1 c, mm128_rol_32 t v0 c)"
  using assms
  by (simp_all add: mm128_rorx2_64_def mm128_rolx2_64_def mm128_rorx2_32_def
      mm128_rolx2_32_def mm128_ror_64_def mm128_rol_64_def mm128_ror_32_def mm128_rol_32_def
      x86_mm_or_si256_def x86_mm_or_si128_def or.commute)

lemma rorx2_with_avx512vl:
  assumes "AVX512VL t"
  shows "mm128_rorx2_64 t (v1, v0) c = (v1, v0)"
    and "mm128_rolx2_64 t (v1, v0) c = (v1, v0)"
    and "mm128_rorx2_32 t (v1, v0) c = (v1, v0)"
    and "mm128_rolx2_32 t (v1, v0) c = (v1, v0)"
  using assms
  by (simp_all add: mm128_rorx2_64_def mm128_rolx2_64_def mm128_rorx2_32_def
      mm128_rolx2_32_def)

text \<open>
  C7. The double buffered macros are to leave in \<open>v0\<close> and \<open>v1\<close> what two single rotates
  by \<open>c\<close> produce, on every target. Without \<open>__AVX512VL__\<close> they do
  (\<open>rorx2_without_avx512vl\<close>). With it they leave both variables as they were
  (\<open>rorx2_with_avx512vl\<close>): at \<open>v1 = v0 = 1\<close> and \<open>c = 1\<close> the pair is still \<open>(1, 1)\<close>, and
  the single rotates give \<open>2 ^ 63\<close> to the right and \<open>2\<close> to the left.
\<close>

theorem rorx2_avx512vl_leaves_operands:
  "mm128_rorx2_64 avx512_target (1, 1) 1 = (1, 1) \<and>
   mm128_ror_64 avx512_target 1 1 = 0x8000000000000000 \<and>
   mm128_rolx2_64 avx512_target (1, 1) 1 = (1, 1) \<and>
   mm128_rol_64 avx512_target 1 1 = 2 \<and>
   mm128_rorx2_32 avx512_target (1, 1) 1 = (1, 1) \<and>
   mm128_ror_32 avx512_target 1 1 = 0x80000000 \<and>
   mm128_rolx2_32 avx512_target (1, 1) 1 = (1, 1) \<and>
   mm128_rol_32 avx512_target 1 1 = 2"
  by code_simp

section \<open>Ternary logic\<close>

lemma bit_vpternlog:
  "n < LENGTH('a) \<Longrightarrow>
   bit (vpternlog a b c imm :: 'a::len word) n = bit (imm8 imm) (ternary_index a b c n)"
  by (simp add: vpternlog_def bit_horner_sum_bit_word_iff)

lemma ternary_index_cases:
  "ternary_index a b c n =
     (if bit a n then (if bit b n then (if bit c n then 7 else 6) else (if bit c n then 5 else 4))
      else (if bit b n then (if bit c n then 3 else 2) else (if bit c n then 1 else 0)))"
  by (simp add: ternary_index_def)

lemma vpternlog_tables:
  fixes a b c :: "'a::len word"
  shows "vpternlog a b c 0x96 = a XOR b XOR c"
    and "vpternlog a b c 0x80 = a AND b AND c"
    and "vpternlog a b c 0xfe = a OR b OR c"
    and "vpternlog a b c 0x78 = a XOR (b AND c)"
    and "vpternlog a b c 0x60 = a AND (b XOR c)"
    and "vpternlog a b c 0x1e = a XOR (b OR c)"
    and "vpternlog a b c 0xd2 = a XOR (NOT b AND c)"
    and "vpternlog a b c 0xf8 = a OR (b AND c)"
    and "vpternlog a b b 0x01 = NOT (a OR b)"
    and "vpternlog a b b 0x81 = NOT (a XOR b)"
    and "vpternlog a b b 0xef = NOT a OR b"
  by (rule bit_word_eqI;
      simp add: bit_vpternlog ternary_index_cases imm8_def bit_0
        bit_xor_iff bit_and_iff bit_or_iff bit_not_iff)+


lemma mm512_combinator_expressions:
  "mm512_xor3 a b c = a XOR b XOR c"
  "mm512_and3 a b c = a AND b AND c"
  "mm512_or3 a b c = a OR b OR c"
  "mm512_xorand a b c = a XOR (b AND c)"
  "mm512_andxor a b c = a AND (b XOR c)"
  "mm512_xoror a b c = a XOR (b OR c)"
  "mm512_xorandnot a b c = a XOR (NOT b AND c)"
  "mm512_orand a b c = a OR (b AND c)"
  "mm512_nor a b = NOT (a OR b)"
  "mm512_xnor a b = NOT (a XOR b)"
  by (simp_all add: mm512_xor3_def mm512_and3_def mm512_or3_def mm512_xorand_def
      mm512_andxor_def mm512_xoror_def mm512_xorandnot_def mm512_orand_def mm512_nor_def
      mm512_xnor_def x86_mm512_ternarylogic_epi64_def vpternlog_tables)

text \<open>
  The table bound to \<open>mm512_nand\<close>, \<open>0xef\<close>, is the table of \<open>~a | b\<close>; the header's comment
  on the macro reads \<open>~( a & b )\<close>, whose table with the operand repeated has bit 7 clear
  and bit 4 set. On two all-ones vectors the macro gives all ones.
\<close>

lemma mm512_nand_expression:
  "mm512_nand a b = NOT a OR b" and "mm512_nand (- 1) (- 1) = - 1"
  by (simp_all add: mm512_nand_def x86_mm512_ternarylogic_epi64_def vpternlog_tables)

lemma mm128_emulation_tables:
  fixes x y z :: m128i
  assumes "n < 128"
  shows "bit (x XOR (y XOR z)) n = bit (0x96 :: nat) (ternary_index x y z n)"
    and "bit (x XOR (y AND z)) n = bit (0x78 :: nat) (ternary_index x y z n)"
  by (simp_all add: ternary_index_cases bit_xor_iff bit_and_iff bit_0)

text \<open>
  In every bit position \<open>n\<close> of the vector, the output bit of each macro is bit
  \<open>4 * a[n] + 2 * b[n] + c[n]\<close> of the table constant the header binds to it. The
  statement is per bit, so it does not depend on an element width. The two 128 bit
  combinators are covered on every target: the ternary logic instruction with the table
  under \<open>__AVX512VL__\<close>, the xor and and instructions otherwise.
\<close>

lemma combinators_follow_bound_tables:
  fixes a b c :: m512i and x y z :: m128i
  shows
  "(n < 512 \<longrightarrow>
      bit (mm512_xor3 a b c) n = bit (0x96 :: nat) (ternary_index a b c n) \<and>
      bit (mm512_and3 a b c) n = bit (0x80 :: nat) (ternary_index a b c n) \<and>
      bit (mm512_or3 a b c) n = bit (0xfe :: nat) (ternary_index a b c n) \<and>
      bit (mm512_xorand a b c) n = bit (0x78 :: nat) (ternary_index a b c n) \<and>
      bit (mm512_andxor a b c) n = bit (0x60 :: nat) (ternary_index a b c n) \<and>
      bit (mm512_xoror a b c) n = bit (0x1e :: nat) (ternary_index a b c n) \<and>
      bit (mm512_xorandnot a b c) n = bit (0xd2 :: nat) (ternary_index a b c n) \<and>
      bit (mm512_orand a b c) n = bit (0xf8 :: nat) (ternary_index a b c n) \<and>
      bit (mm512_nor a b) n = bit (0x01 :: nat) (ternary_index a b b n) \<and>
      bit (mm512_xnor a b) n = bit (0x81 :: nat) (ternary_index a b b n) \<and>
      bit (mm512_nand a b) n = bit (0xef :: nat) (ternary_index a b b n)) \<and>
   (n < 128 \<longrightarrow>
      bit (mm128_xor3 t x y z) n = bit (0x96 :: nat) (ternary_index x y z n) \<and>
      bit (mm128_xorand t x y z) n = bit (0x78 :: nat) (ternary_index x y z n))"
proof (intro conjI impI)
  assume n: "n < 512"
  then have v: "\<And>imm. bit (vpternlog a b c imm) n = bit (imm8 imm) (ternary_index a b c n)"
    and w: "\<And>imm. bit (vpternlog a b b imm) n = bit (imm8 imm) (ternary_index a b b n)"
    by (simp_all add: bit_vpternlog)
  show "bit (mm512_xor3 a b c) n = bit (0x96 :: nat) (ternary_index a b c n)"
    by (simp add: mm512_xor3_def x86_mm512_ternarylogic_epi64_def v imm8_def)
  show "bit (mm512_and3 a b c) n = bit (0x80 :: nat) (ternary_index a b c n)"
    by (simp add: mm512_and3_def x86_mm512_ternarylogic_epi64_def v imm8_def)
  show "bit (mm512_or3 a b c) n = bit (0xfe :: nat) (ternary_index a b c n)"
    by (simp add: mm512_or3_def x86_mm512_ternarylogic_epi64_def v imm8_def)
  show "bit (mm512_xorand a b c) n = bit (0x78 :: nat) (ternary_index a b c n)"
    by (simp add: mm512_xorand_def x86_mm512_ternarylogic_epi64_def v imm8_def)
  show "bit (mm512_andxor a b c) n = bit (0x60 :: nat) (ternary_index a b c n)"
    by (simp add: mm512_andxor_def x86_mm512_ternarylogic_epi64_def v imm8_def)
  show "bit (mm512_xoror a b c) n = bit (0x1e :: nat) (ternary_index a b c n)"
    by (simp add: mm512_xoror_def x86_mm512_ternarylogic_epi64_def v imm8_def)
  show "bit (mm512_xorandnot a b c) n = bit (0xd2 :: nat) (ternary_index a b c n)"
    by (simp add: mm512_xorandnot_def x86_mm512_ternarylogic_epi64_def v imm8_def)
  show "bit (mm512_orand a b c) n = bit (0xf8 :: nat) (ternary_index a b c n)"
    by (simp add: mm512_orand_def x86_mm512_ternarylogic_epi64_def v imm8_def)
  show "bit (mm512_nor a b) n = bit (0x01 :: nat) (ternary_index a b b n)"
    by (simp add: mm512_nor_def x86_mm512_ternarylogic_epi64_def w imm8_def)
  show "bit (mm512_xnor a b) n = bit (0x81 :: nat) (ternary_index a b b n)"
    by (simp add: mm512_xnor_def x86_mm512_ternarylogic_epi64_def w imm8_def)
  show "bit (mm512_nand a b) n = bit (0xef :: nat) (ternary_index a b b n)"
    by (simp add: mm512_nand_def x86_mm512_ternarylogic_epi64_def w imm8_def)
next
  assume n: "n < 128"
  then have v: "\<And>imm. bit (vpternlog x y z imm) n = bit (imm8 imm) (ternary_index x y z n)"
    by (simp add: bit_vpternlog)
  show "bit (mm128_xor3 t x y z) n = bit (0x96 :: nat) (ternary_index x y z n)"
    using mm128_emulation_tables(1) [OF n, of x y z]
    by (simp add: mm128_xor3_def x86_mm_ternarylogic_epi64_def x86_mm_xor_si128_def v imm8_def)
  show "bit (mm128_xorand t x y z) n = bit (0x78 :: nat) (ternary_index x y z n)"
    using mm128_emulation_tables(2) [OF n, of x y z]
    by (simp add: mm128_xorand_def x86_mm_ternarylogic_epi64_def x86_mm_xor_si128_def
        x86_mm_and_si128_def v imm8_def)
qed

text \<open>
  C2. Each named combinator is to put out, for every combination of input bits, the bit
  of its truth table at index \<open>4 * a + 2 * b + c\<close>. Ten of the eleven 512 bit macros and
  both 128 bit ones are bound to the table of the function they are named and commented
  as (\<open>mm512_combinator_expressions\<close>, \<open>mm128_emulation_tables\<close>). \<open>mm512_nand\<close> is not:
  its table \<open>0xef\<close> has bit 7 set and bit 4 clear. On two all-ones vectors, input bits
  \<open>(1, 1)\<close> everywhere, it gives all ones where the nand is zero; at \<open>a = 1\<close>, \<open>b = 0\<close> its
  bit 0, input bits \<open>(1, 0)\<close>, is clear where the nand sets it.
\<close>

theorem mm512_nand_is_not_nand:
  "mm512_nand (- 1) (- 1) = - 1 \<and>
   NOT ((- 1) AND (- 1) :: m512i) = 0 \<and>
   \<not> bit (mm512_nand 1 0) 0 \<and>
   bit (NOT (1 AND 0 :: m512i)) 0 \<and>
   bit (0xef :: nat) 7 \<and> \<not> bit (0xef :: nat) 4"
  by (simp add: mm512_nand_expression bit_or_iff bit_not_iff bit_0)

section \<open>Diagonal blend\<close>

lemma elem_mask_blend_epi64:
  "j < 8 \<Longrightarrow> elem (x86_mm512_mask_blend_epi64 k a b) j
     = (if bit k j then elem b j else elem a j :: 64 word)"
  by (simp add: x86_mm512_mask_blend_epi64_def elem_build_lt)

lemma elem_mask_blend_epi32:
  "j < 16 \<Longrightarrow> elem (x86_mm512_mask_blend_epi32 k a b) j
     = (if bit k j then elem b j else elem a j :: 32 word)"
  by (simp add: x86_mm512_mask_blend_epi32_def elem_build_lt)

lemma elem_blend_epi32:
  "j < 4 \<Longrightarrow> elem (x86_mm_blend_epi32 a b c) j
     = (if bit (imm8 c) j then elem b j else elem a j :: 32 word)"
  by (simp add: x86_mm_blend_epi32_def elem_build_lt)

lemma elem_blend_epi16:
  "j < 8 \<Longrightarrow> elem (x86_mm_blend_epi16 a b c) j
     = (if bit (imm8 c) j then elem b j else elem a j :: 16 word)"
  by (simp add: x86_mm_blend_epi16_def elem_build_lt)

text \<open>
  What \<open>mm512_diagonal_64\<close> selects: elements 0 to 3 and 5 to 7 come from the vector of
  the same number, element 4 comes from \<open>v5\<close>. The inner blend of \<open>v5\<close> and \<open>v4\<close> takes
  element 6 from \<open>v4\<close> (mask \<open>0x40\<close>), and the blend above it keeps only elements 4 and 5
  of that result (mask \<open>0x30\<close>), so nothing of \<open>v4\<close> reaches the output.
\<close>

lemma mm512_diagonal_64_elems:
  "mm512_diagonal_64 v7 v6 v5 v4 v3 v2 v1 v0 =
     pack [elem v0 0, elem v1 1, elem v2 2, elem v3 3,
           elem v5 4, elem v5 5, elem v6 6, elem v7 7 :: 64 word]"
  by (rule vec_eq_map [where n = 8 and 'b = 64])
    (simp_all add: upt_8 mm512_diagonal_64_def elem_mask_blend_epi64 elem_pack)

lemma mm512_diagonal128_32_elems:
  "mm512_diagonal128_32 v3 v2 v1 v0 =
     pack [elem v0 0, elem v1 1, elem v2 2, elem v3 3,
           elem v0 4, elem v1 5, elem v2 6, elem v3 7,
           elem v0 8, elem v1 9, elem v2 10, elem v3 11,
           elem v0 12, elem v1 13, elem v2 14, elem v3 15 :: 32 word]"
  by (rule vec_eq_map [where n = 16 and 'b = 32])
    (simp_all add: upt_16 mm512_diagonal128_32_def elem_mask_blend_epi32 elem_pack)

text \<open>
  \<open>mm128_diagonal_32\<close> ignores the four vectors it is given. Where \<open>s3 .. s0\<close> in scope are
  the intended vectors and the two outer names are bound to the blend instructions, both
  of its branches select the diagonal.
\<close>

lemma mm128_diagonal_32_ignores_arguments:
  "mm128_diagonal_32 t f g s3 s2 s1 s0 v3 v2 v1 v0 = mm128_diagonal_32 t f g s3 s2 s1 s0 w3 w2 w1 w0"
  by (simp add: mm128_diagonal_32_def)

lemma elem_16_of_32:
  "i < 2 \<Longrightarrow> (elem (elem (v :: m128i) j :: 32 word) i :: 16 word) = elem v (j * 2 + i)"
  by (rule elem_elem) simp_all

lemma elem_16_of_32_pack:
  "j < 8 \<Longrightarrow> (elem (pack ws :: m128i) j :: 16 word)
     = elem (elem (pack ws :: m128i) (j div 2) :: 32 word) (j mod 2)"
  by (simp add: elem_elem [where k = 2])

lemma diagonal_by_blend_epi32:
  "x86_mm_blend_epi32 (x86_mm_blend_epi32 s3 s2 0x4) (x86_mm_blend_epi32 s1 s0 0x1) 0x3
     = pack [elem s0 0, elem s1 1, elem s2 2, elem s3 3 :: 32 word]"
  by (rule vec_eq_map [where n = 4 and 'b = 32])
    (simp_all add: upt_4 elem_blend_epi32 elem_pack imm8_def bit_0)

lemma diagonal_by_blend_epi16:
  "x86_mm_blend_epi16 (x86_mm_blend_epi16 s3 s2 0x30) (x86_mm_blend_epi16 s1 s0 0x03) 0x0f
     = pack [elem s0 0, elem s1 1, elem s2 2, elem s3 3 :: 32 word]"
  by (rule vec_eq_map [where n = 8 and 'b = 16])
    (simp_all add: upt_8 elem_blend_epi16 imm8_def bit_0 elem_16_of_32_pack elem_pack
      elem_16_of_32)

lemma mm128_diagonal_32_in_intended_scope:
  "mm128_diagonal_32 t x86_mm_blend_epi32 x86_mm_blend_epi16 v3 v2 v1 v0 v3 v2 v1 v0 =
     (if AVX2 t \<or> SSE4_1 t then Some (pack [elem v0 0, elem v1 1, elem v2 2, elem v3 3 :: 32 word])
      else None)"
  by (simp add: mm128_diagonal_32_def diagonal_by_blend_epi32 diagonal_by_blend_epi16)

text \<open>
  C6. The diagonal blend is to give an output whose element \<open>i\<close> is element \<open>i\<close> of input
  \<open>i\<close>. Eight vectors with the marker \<open>16 * i + j\<close> in element \<open>j\<close> of vector \<open>i\<close>:
  \<open>mm512_diagonal_64\<close> returns the marker \<open>0x54\<close> of vector 5 in element 4, where the
  marker \<open>0x44\<close> of vector 4 belongs, and no element of vector 4 is in the output.
\<close>

theorem mm512_diagonal_64_element_4:
  "mm512_diagonal_64
     (m512_const_64 0x77 0x76 0x75 0x74 0x73 0x72 0x71 0x70)
     (m512_const_64 0x67 0x66 0x65 0x64 0x63 0x62 0x61 0x60)
     (m512_const_64 0x57 0x56 0x55 0x54 0x53 0x52 0x51 0x50)
     (m512_const_64 0x47 0x46 0x45 0x44 0x43 0x42 0x41 0x40)
     (m512_const_64 0x37 0x36 0x35 0x34 0x33 0x32 0x31 0x30)
     (m512_const_64 0x27 0x26 0x25 0x24 0x23 0x22 0x21 0x20)
     (m512_const_64 0x17 0x16 0x15 0x14 0x13 0x12 0x11 0x10)
     (m512_const_64 0x07 0x06 0x05 0x04 0x03 0x02 0x01 0x00)
   = m512_const_64 0x77 0x66 0x55 0x54 0x33 0x22 0x11 0x00 \<and>
   elem (m512_const_64 0x47 0x46 0x45 0x44 0x43 0x42 0x41 0x40) 4 = (0x44 :: 64 word)"
  by (simp add: mm512_diagonal_64_elems elem_m512_const_64) (simp add: m512_const_64_def)

section \<open>Constant control vectors\<close>

lemma m128_const_64_pack: "m128_const_64 t hi lo = pack [lo, hi]"
proof -
  have "x86_mm_insert_epi64 (mm128_mov64_128 t lo) hi 1 = pack [lo, hi]"
    by (rule vec_eq_map [where n = 2 and 'b = 64])
      (simp_all add: x86_mm_insert_epi64_def elem_build_lt elem_pack imm8_def
        mm128_mov64_128_def asm_movq_to_xmm_def elem_0_ucast numeral_2_eq_2)
  then show ?thesis by (simp add: m128_const_64_def x86_mm_set_epi64x_def)
qed

lemma elem_8_m128_const_64:
  "j < 16 \<Longrightarrow> (elem (m128_const_64 t hi lo) j :: 8 word) = elem ([lo, hi] ! (j div 8)) (j mod 8)"
  by (subst elem_8_of_64) (simp add: m128_const_64_pack elem_pack less_mult_imp_div_less)

lemma elem_8_m512_const_64:
  "j < 64 \<Longrightarrow> (elem (m512_const_64 i7 i6 i5 i4 i3 i2 i1 i0) j :: 8 word)
     = elem ([i0, i1, i2, i3, i4, i5, i6, i7] ! (j div 8)) (j mod 8)"
  by (subst elem_8_of_64) (simp add: elem_m512_const_64 less_mult_imp_div_less)


section \<open>Byte and word shuffles\<close>

lemma elem_shuffle_epi8:
  "j < 16 \<Longrightarrow> elem (x86_mm_shuffle_epi8 a b) j
     = (if bit (elem b j :: 8 word) 7 then 0 else elem a (unat (elem b j :: 8 word) mod 16) :: 8 word)"
  by (simp add: x86_mm_shuffle_epi8_def elem_build_lt)

lemma elem_mm512_shuffle_epi8:
  "j < 64 \<Longrightarrow> elem (x86_mm512_shuffle_epi8 a b) j
     = (if bit (elem b j :: 8 word) 7 then 0
        else elem a (16 * (j div 16) + unat (elem b j :: 8 word) mod 16) :: 8 word)"
  by (simp add: x86_mm512_shuffle_epi8_def elem_build_lt)


lemma elem_shufflelo_epi16:
  "j < 8 \<Longrightarrow> elem (x86_mm_shufflelo_epi16 a c) j
     = (if j < 4 then elem a (sel2 (imm8 c) j) else elem a j :: 16 word)"
  by (simp add: x86_mm_shufflelo_epi16_def elem_build_lt)

lemma elem_shufflehi_epi16:
  "j < 8 \<Longrightarrow> elem (x86_mm_shufflehi_epi16 a c) j
     = (if j < 4 then elem a j else elem a (4 + sel2 (imm8 c) (j - 4)) :: 16 word)"
  by (simp add: x86_mm_shufflehi_epi16_def elem_build_lt)

section \<open>Endian byte swap of 128 bit vectors\<close>

lemma ssse3_bswap_bytes:
  "x86_mm_shuffle_epi8 v (m128_const_64 t 0x08090a0b0c0d0e0f 0x0001020304050607)
     = build 16 (\<lambda>j. elem v (reversed_in_element 8 j) :: 8 word)"
  "x86_mm_shuffle_epi8 v (m128_const_64 t 0x0c0d0e0f08090a0b 0x0405060700010203)
     = build 16 (\<lambda>j. elem v (reversed_in_element 4 j) :: 8 word)"
  "x86_mm_shuffle_epi8 v (m128_const_64 t 0x0e0f0c0d0a0b0809 0x0607040502030001)
     = build 16 (\<lambda>j. elem v (reversed_in_element 2 j) :: 8 word)"
  by (rule vec_eq_map [where n = 16 and 'b = 8];
      simp add: upt_16 elem_shuffle_epi8 elem_8_m128_const_64 elem_numeral elem_build_lt
        reversed_in_element_def)+

lemma swap_bytes_of_words:
  "x86_mm_or_si128 (x86_mm_slli_epi16 v 8) (x86_mm_srli_epi16 v 8)
     = build 8 (\<lambda>j. word_rotl 8 (elem v j :: 16 word))"
  using mm128_rol_16_elems [of 8 v] by (simp add: mm128_rol_16_def)

lemma elem_8_build_16:
  "j < 16 \<Longrightarrow> (elem (build 8 f :: m128i) j :: 8 word) = elem (f (j div 2) :: 16 word) (j mod 2)"
  by (subst elem_8_of_16) (simp add: elem_build_lt less_mult_imp_div_less)

lemma sse2_bswap_words:
  "x86_mm_shufflehi_epi16
     (x86_mm_shufflelo_epi16 (build 8 (\<lambda>j. word_rotl 8 (elem v j :: 16 word)))
        (MM_SHUFFLE 0 1 2 3)) (MM_SHUFFLE 0 1 2 3)
   = build 8 (\<lambda>j. word_rotl 8 (elem v ([3, 2, 1, 0, 7, 6, 5, 4] ! j) :: 16 word))"
  "x86_mm_shufflehi_epi16
     (x86_mm_shufflelo_epi16 (build 8 (\<lambda>j. word_rotl 8 (elem v j :: 16 word)))
        (MM_SHUFFLE 2 3 0 1)) (MM_SHUFFLE 2 3 0 1)
   = build 8 (\<lambda>j. word_rotl 8 (elem v ([1, 0, 3, 2, 5, 4, 7, 6] ! j) :: 16 word))"
  by (rule vec_eq_map [where n = 8 and 'b = 16];
      simp add: upt_8 elem_shufflehi_epi16 elem_shufflelo_epi16 elem_build_lt
        MM_SHUFFLE_def imm8_def sel2_def)+

lemma sse2_bswap_bytes:
  "build 8 (\<lambda>j. word_rotl 8 (elem v ([3, 2, 1, 0, 7, 6, 5, 4] ! j) :: 16 word))
     = (build 16 (\<lambda>j. elem v (reversed_in_element 8 j) :: 8 word) :: m128i)"
  "build 8 (\<lambda>j. word_rotl 8 (elem v ([1, 0, 3, 2, 5, 4, 7, 6] ! j) :: 16 word))
     = (build 16 (\<lambda>j. elem v (reversed_in_element 4 j) :: 8 word) :: m128i)"
  "build 8 (\<lambda>j. word_rotl 8 (elem v j :: 16 word))
     = (build 16 (\<lambda>j. elem v (reversed_in_element 2 j) :: 8 word) :: m128i)"
  by (rule vec_eq_map [where n = 16 and 'b = 8];
      simp add: upt_16 elem_8_build_16 elem_8_rotl_8 elem_8_in_16 elem_build_lt
        reversed_in_element_def)+

text \<open>On every target the three swaps are the byte reversal within 8, 4 and 2 byte elements.\<close>

lemma mm128_bswap_bytes:
  "mm128_bswap_64 t v = build 16 (\<lambda>j. elem v (reversed_in_element 8 j) :: 8 word)"
  "mm128_bswap_32 t v = build 16 (\<lambda>j. elem v (reversed_in_element 4 j) :: 8 word)"
  "mm128_bswap_16 t v = build 16 (\<lambda>j. elem v (reversed_in_element 2 j) :: 8 word)"
proof -
  show "mm128_bswap_64 t v = build 16 (\<lambda>j. elem v (reversed_in_element 8 j) :: 8 word)"
    by (simp only: mm128_bswap_64_def Let_def ssse3_bswap_bytes swap_bytes_of_words
        sse2_bswap_words sse2_bswap_bytes(1) if_cancel)
  show "mm128_bswap_32 t v = build 16 (\<lambda>j. elem v (reversed_in_element 4 j) :: 8 word)"
    by (simp only: mm128_bswap_32_def Let_def ssse3_bswap_bytes swap_bytes_of_words
        sse2_bswap_words sse2_bswap_bytes(2) if_cancel)
  show "mm128_bswap_16 t v = build 16 (\<lambda>j. elem v (reversed_in_element 2 j) :: 8 word)"
    by (simp only: mm128_bswap_16_def ssse3_bswap_bytes swap_bytes_of_words
        sse2_bswap_bytes(3) if_cancel)
qed

section \<open>Endian byte swap of 512 bit vectors\<close>

lemma mm512_bswap_64_bytes:
  "mm512_bswap_64 v = build 64 (\<lambda>j. elem v (reversed_in_element 8 j) :: 8 word)"
  unfolding mm512_bswap_64_def
  by (rule vec_eq_map [where n = 64 and 'b = 8];
      simp add: upt_64 elem_mm512_shuffle_epi8 elem_8_m512_const_64 elem_numeral elem_build_lt
        reversed_in_element_def numeral_2_eq_2 [symmetric])

lemma mm512_bswap_32_bytes:
  "mm512_bswap_32 v = build 64 (\<lambda>j. elem v (reversed_in_element 4 j) :: 8 word)"
  unfolding mm512_bswap_32_def
  by (rule vec_eq_map [where n = 64 and 'b = 8];
      simp add: upt_64 elem_mm512_shuffle_epi8 elem_8_m512_const_64 elem_numeral elem_build_lt
        reversed_in_element_def numeral_2_eq_2 [symmetric])

lemma mm512_bswap_16_bytes:
  "mm512_bswap_16 v = build 64 (\<lambda>j. elem v (reversed_in_element 2 j) :: 8 word)"
  unfolding mm512_bswap_16_def
  by (rule vec_eq_map [where n = 64 and 'b = 8];
      simp add: upt_64 elem_mm512_shuffle_epi8 elem_8_m512_const_64 elem_numeral elem_build_lt
        reversed_in_element_def numeral_2_eq_2 [symmetric])


lemma reversal_twice_128:
  fixes v :: m128i
  shows "build 16 (\<lambda>j. elem (build 16 (\<lambda>j. elem v (reversed_in_element 8 j) :: 8 word) :: m128i)
            (reversed_in_element 8 j) :: 8 word) = v"
    and "build 16 (\<lambda>j. elem (build 16 (\<lambda>j. elem v (reversed_in_element 4 j) :: 8 word) :: m128i)
            (reversed_in_element 4 j) :: 8 word) = v"
    and "build 16 (\<lambda>j. elem (build 16 (\<lambda>j. elem v (reversed_in_element 2 j) :: 8 word) :: m128i)
            (reversed_in_element 2 j) :: 8 word) = v"
  by (rule vec_eq_map [where n = 16 and 'b = 8];
      simp add: upt_16 elem_build_lt reversed_in_element_def numeral_2_eq_2 [symmetric])+

lemma reversal_twice_512:
  fixes v :: m512i
  shows "build 64 (\<lambda>j. elem (build 64 (\<lambda>j. elem v (reversed_in_element 8 j) :: 8 word) :: m512i)
            (reversed_in_element 8 j) :: 8 word) = v"
    and "build 64 (\<lambda>j. elem (build 64 (\<lambda>j. elem v (reversed_in_element 4 j) :: 8 word) :: m512i)
            (reversed_in_element 4 j) :: 8 word) = v"
    and "build 64 (\<lambda>j. elem (build 64 (\<lambda>j. elem v (reversed_in_element 2 j) :: 8 word) :: m512i)
            (reversed_in_element 2 j) :: 8 word) = v"
  by (rule vec_eq_map [where n = 64 and 'b = 8];
      simp add: upt_64 elem_build_lt reversed_in_element_def numeral_2_eq_2 [symmetric])+

text \<open>
  C4. Applying the endian swap twice gives the vector back, for 64, 32 and 16 bit elements,
  for 128 bit vectors on every target (byte shuffle under \<open>__SSSE3__\<close>, shifts and word
  shuffles otherwise) and for 512 bit vectors.
\<close>

theorem byte_swap_involution:
  "mm128_bswap_64 t (mm128_bswap_64 t v) = v \<and>
   mm128_bswap_32 t (mm128_bswap_32 t v) = v \<and>
   mm128_bswap_16 t (mm128_bswap_16 t v) = v \<and>
   mm512_bswap_64 (mm512_bswap_64 V) = V \<and>
   mm512_bswap_32 (mm512_bswap_32 V) = V \<and>
   mm512_bswap_16 (mm512_bswap_16 V) = V"
  by (simp add: mm128_bswap_bytes mm512_bswap_64_bytes mm512_bswap_32_bytes
      mm512_bswap_16_bytes reversal_twice_128 reversal_twice_512)

lemma bswap_examples:
  "mm128_bswap_32 t 0x0f0e0d0c0b0a09080706050403020100 = 0x0c0d0e0f08090a0b0405060700010203"
  "mm128_bswap_16 sse2_target 0x0f0e0d0c0b0a09080706050403020100 = 0x0e0f0c0d0a0b08090607040502030001"
  "mm128_bswap_64 avx512_target 0x0f0e0d0c0b0a09080706050403020100 = 0x08090a0b0c0d0e0f0001020304050607"
  by (simp_all add: mm128_bswap_bytes build_def upt_16 reversed_in_element_def elem_numeral pack_def)

section \<open>Shuffle-rotate of whole vectors\<close>

lemma mm128_shuffle_rotate_elems:
  "mm128_swap_64 v = pack [elem v 2, elem v 3, elem v 0, elem v 1 :: 32 word]"
  "mm128_shuflr_32 v = pack [elem v 1, elem v 2, elem v 3, elem v 0 :: 32 word]"
  "mm128_shufll_32 v = pack [elem v 3, elem v 0, elem v 1, elem v 2 :: 32 word]"
  by (rule vec_eq_map [where n = 4 and 'b = 32];
      simp add: upt_4 mm128_swap_64_def mm128_shuflr_32_def mm128_shufll_32_def
        elem_mm_shuffle_epi32 elem_pack sel2_def imm8_def)+


text \<open>
  The 512 bit alignment instructions applied to \<open>(v, v)\<close> rotate the register: bit \<open>n\<close> of
  the result is bit \<open>n + d\<close> of \<open>v\<close>, modulo 512.
\<close>

lemma bit_align_self_gen:
  fixes v :: "'a::len word"
  assumes "n < LENGTH('a)" and "d < LENGTH('a)" and "LENGTH('b::len) = 2 * LENGTH('a)"
  shows "bit (ucast (drop_bit d (push_bit LENGTH('a) (ucast v :: 'b word) OR ucast v)) :: 'a word) n
         = bit v ((n + d) mod LENGTH('a))"
proof (cases "n + d < LENGTH('a)")
  case True
  then show ?thesis using assms
    by (simp add: bit_ucast_iff bit_drop_bit_eq bit_or_iff bit_push_bit_iff add.commute)
next
  case False
  then have m: "(d + n) mod LENGTH('a) = d + n - LENGTH('a)" using assms by (simp add: le_mod_geq)
  have "\<not> bit v (d + n)" using False by (auto dest: bit_imp_le_length)
  moreover have "LENGTH('a) \<le> d + n" "d + n < LENGTH('b)" "d + n - LENGTH('a) < LENGTH('a)"
    using False assms by simp_all
  ultimately show ?thesis using assms
    by (simp add: bit_ucast_iff bit_drop_bit_eq bit_or_iff bit_push_bit_iff m add.commute)
qed

lemma bit_align_self:
  fixes v :: m512i
  assumes "n < 512" and "d < 512"
  shows "bit (ucast (drop_bit d (push_bit 512 (ucast v :: 1024 word) OR ucast v)) :: m512i) n
         = bit v ((n + d) mod 512)"
  using bit_align_self_gen [where 'a = 512 and 'b = 1024, of n d v] assms by simp

lemma bit_alignr_epi64:
  "n < 512 \<Longrightarrow> bit (x86_mm512_alignr_epi64 v v c) n = bit v ((n + 64 * (imm8 c mod 8)) mod 512)"
  unfolding x86_mm512_alignr_epi64_def by (rule bit_align_self) simp_all

lemma bit_alignr_epi32:
  "n < 512 \<Longrightarrow> bit (x86_mm512_alignr_epi32 v v c) n = bit v ((n + 32 * (imm8 c mod 16)) mod 512)"
  unfolding x86_mm512_alignr_epi32_def by (rule bit_align_self) simp_all







lemma rotate_index:
  fixes n w j k s :: nat
  assumes "n < w" and "j < k" and "0 < s" and "s < k"
  shows "(j * w + n + w * s) mod (k * w) = ((j + s) mod k) * w + n"
proof -
  have "(j + s) * w + n = j * w + n + w * s" by (simp add: algebra_simps)
  moreover have "((j + s) * w + n) mod (k * w) = ((j + s) mod k) * w + n"
  proof -
    have "((j + s) mod k) * w + n < k * w"
    proof -
      have "(j + s) mod k < k" using assms by simp
      then have "(j + s) mod k + 1 \<le> k" by simp
      then have "((j + s) mod k + 1) * w \<le> k * w" by (rule mult_le_mono1)
      then show ?thesis using assms(1) by (simp add: algebra_simps)
    qed
    moreover have "((j + s) * w + n) mod (k * w) = (((j + s) mod k) * w + n) mod (k * w)"
      by (metis mod_add_left_eq mod_mult_mult2 mult.commute)
    ultimately show ?thesis by simp
  qed
  ultimately show ?thesis by (simp add: add.assoc add.commute [of n])
qed

lemma mm512_shuffle_rotate_elems:
  "j < 8 \<Longrightarrow> elem (mm512_shuflr_64 v) j = (elem v ((j + 1) mod 8) :: 64 word)"
  "j < 8 \<Longrightarrow> elem (mm512_shufll_64 v) j = (elem v ((j + 7) mod 8) :: 64 word)"
  "i < 16 \<Longrightarrow> elem (mm512_shuflr_32 v) i = (elem v ((i + 1) mod 16) :: 32 word)"
  "i < 16 \<Longrightarrow> elem (mm512_shufll_32 v) i = (elem v ((i + 15) mod 16) :: 32 word)"
proof -
  have a: "n < 64 \<Longrightarrow> j < 8 \<Longrightarrow> j * 64 + n < 512" for n j :: nat by simp
  have b: "n < 32 \<Longrightarrow> i < 16 \<Longrightarrow> i * 32 + n < 512" for n i :: nat by simp
  show "j < 8 \<Longrightarrow> elem (mm512_shuflr_64 v) j = (elem v ((j + 1) mod 8) :: 64 word)"
    using rotate_index [where w = 64 and k = 8 and s = 1 and j = j]
    by (intro bit_word_eqI) (simp add: bit_elem mm512_shuflr_64_def bit_alignr_epi64 a imm8_def)
  show "j < 8 \<Longrightarrow> elem (mm512_shufll_64 v) j = (elem v ((j + 7) mod 8) :: 64 word)"
    using rotate_index [where w = 64 and k = 8 and s = 7 and j = j]
    by (intro bit_word_eqI) (simp add: bit_elem mm512_shufll_64_def bit_alignr_epi64 a imm8_def)
  show "i < 16 \<Longrightarrow> elem (mm512_shuflr_32 v) i = (elem v ((i + 1) mod 16) :: 32 word)"
    using rotate_index [where w = 32 and k = 16 and s = 1 and j = i]
    by (intro bit_word_eqI) (simp add: bit_elem mm512_shuflr_32_def bit_alignr_epi32 b imm8_def)
  show "i < 16 \<Longrightarrow> elem (mm512_shufll_32 v) i = (elem v ((i + 15) mod 16) :: 32 word)"
    using rotate_index [where w = 32 and k = 16 and s = 15 and j = i]
    by (intro bit_word_eqI) (simp add: bit_elem mm512_shufll_32_def bit_alignr_epi32 b imm8_def)
qed

lemma mm512_block_rotate_elems:
  "j < 8 \<Longrightarrow> elem (mm512_swap_256 v) j = (elem v ((j + 4) mod 8) :: 64 word)"
  "j < 8 \<Longrightarrow> elem (mm512_shuflr_128 v) j = (elem v ((j + 2) mod 8) :: 64 word)"
  "j < 8 \<Longrightarrow> elem (mm512_shufll_128 v) j = (elem v ((j + 6) mod 8) :: 64 word)"
proof -
  have a: "n < 64 \<Longrightarrow> j < 8 \<Longrightarrow> j * 64 + n < 512" for n j :: nat by simp
  show "j < 8 \<Longrightarrow> elem (mm512_swap_256 v) j = (elem v ((j + 4) mod 8) :: 64 word)"
    using rotate_index [where w = 64 and k = 8 and s = 4 and j = j]
    by (intro bit_word_eqI) (simp add: bit_elem mm512_swap_256_def bit_alignr_epi64 a imm8_def)
  show "j < 8 \<Longrightarrow> elem (mm512_shuflr_128 v) j = (elem v ((j + 2) mod 8) :: 64 word)"
    using rotate_index [where w = 64 and k = 8 and s = 2 and j = j]
    by (intro bit_word_eqI) (simp add: bit_elem mm512_shuflr_128_def bit_alignr_epi64 a imm8_def)
  show "j < 8 \<Longrightarrow> elem (mm512_shufll_128 v) j = (elem v ((j + 6) mod 8) :: 64 word)"
    using rotate_index [where w = 64 and k = 8 and s = 6 and j = j]
    by (intro bit_word_eqI) (simp add: bit_elem mm512_shufll_128_def bit_alignr_epi64 a imm8_def)
qed

lemma mm512_swap_256_example:
  "mm512_swap_256 (m512_const_64 7 6 5 4 3 2 1 0) = m512_const_64 3 2 1 0 7 6 5 4"
  by (rule vec_eq_map [where n = 8 and 'b = 64])
    (simp_all add: upt_8 mm512_block_rotate_elems elem_m512_const_64)



lemma shuffle_rotate_examples:
  "mm128_shuflr_32 0x00000003000000020000000100000000 = 0x00000000000000030000000200000001"
  "mm128_shufll_32 0x00000003000000020000000100000000 = 0x00000002000000010000000000000003"
  by (simp_all add: mm128_shuffle_rotate_elems elem_numeral pack_def)

section \<open>Agreement between targets\<close>

lemma alignr_8_by_shifts:
  "x86_mm_alignr_epi8 a b 8 = x86_mm_or_si128 (x86_mm_srli_si128 b 8) (x86_mm_slli_si128 a 8)"
  by (rule bit_word_eqI)
    (auto simp: x86_mm_alignr_epi8_def x86_mm_or_si128_def x86_mm_srli_si128_def
      x86_mm_slli_si128_def imm8_def bit_ucast_iff bit_drop_bit_eq bit_or_iff bit_push_bit_iff
      dest: bit_imp_le_length)

lemma shufl2_any_target:
  "mm128_shufl2r_64 t v1 v2 = x86_mm_or_si128 (x86_mm_srli_si128 v1 8) (x86_mm_slli_si128 v2 8)"
  "mm128_shufl2l_64 t v1 v2 = x86_mm_or_si128 (x86_mm_slli_si128 v1 8) (x86_mm_srli_si128 v2 8)"
  by (simp_all add: mm128_shufl2r_64_def mm128_shufl2l_64_def alignr_8_by_shifts)
    (simp add: x86_mm_or_si128_def or.commute)

lemma vrot256_any_target:
  "mm128_vror256_64 t (v1, v2) =
     (x86_mm_or_si128 (x86_mm_srli_si128 v1 8) (x86_mm_slli_si128 v2 8),
      x86_mm_or_si128 (x86_mm_srli_si128 v2 8) (x86_mm_slli_si128 v1 8))"
  "mm128_vrol256_64 t (v1, v2) =
     (x86_mm_or_si128 (x86_mm_slli_si128 v1 8) (x86_mm_srli_si128 v2 8),
      x86_mm_or_si128 (x86_mm_slli_si128 v2 8) (x86_mm_srli_si128 v1 8))"
  by (simp_all add: mm128_vror256_64_def mm128_vrol256_64_def alignr_8_by_shifts
      x86_mm_or_si128_def or.commute)

lemma ternary_any_target:
  "mm128_xor3 t a b c = a XOR b XOR c"
  "mm128_xorand t a b c = a XOR (b AND c)"
  by (simp_all add: mm128_xor3_def mm128_xorand_def x86_mm_ternarylogic_epi64_def
      vpternlog_tables x86_mm_xor_si128_def x86_mm_and_si128_def xor.assoc)

lemma block_bswap_any_target:
  "mm128_block_bswap_64 t mem d s =
     fold (\<lambda>i m. m(d + i := build 16 (\<lambda>j. elem (m (s + i)) (reversed_in_element 8 j) :: 8 word)))
       [0, 1, 2, 3, 4, 5, 6, 7] mem"
  "mm128_block_bswap_32 t mem d s =
     fold (\<lambda>i m. m(d + i := build 16 (\<lambda>j. elem (m (s + i)) (reversed_in_element 4 j) :: 8 word)))
       [0, 1, 2, 3, 4, 5, 6, 7] mem"
  by (simp_all only: mm128_block_bswap_64_def mm128_block_bswap_32_def Let_def
      ssse3_bswap_bytes mm128_bswap_bytes if_cancel)


text \<open>Bytes of rotated 64 and 32 bit elements.\<close>

lemma elem_8_rotr:
  fixes w :: "'a::len word"
  assumes "LENGTH('a) = k * 8" and "i < k" and "0 < s" and "s < k"
  shows "(elem (word_rotr (8 * s) w) i :: 8 word) = elem w ((i + s) mod k)"
proof (rule bit_word_eqI)
  fix n assume "n < LENGTH(8)"
  then have n: "n < 8" by simp
  have "i * 8 + n < k * 8"
  proof -
    have "(i + 1) * 8 \<le> k * 8" using assms(2) by (intro mult_le_mono1) simp
    then show ?thesis using n by simp
  qed
  moreover have "(i * 8 + n + 8 * s) mod (k * 8) = ((i + s) mod k) * 8 + n"
    using n assms by (intro rotate_index) simp_all
  ultimately show "bit (elem (word_rotr (8 * s) w) i :: 8 word) n
      = bit (elem w ((i + s) mod k) :: 8 word) n"
    using n by (simp add: bit_elem bit_word_rotr_iff assms(1))
qed

lemma elem_8_rotr_64:
  "i < 8 \<Longrightarrow> (elem (word_rotr 24 (w :: 64 word)) i :: 8 word) = elem w ((i + 3) mod 8)"
  "i < 8 \<Longrightarrow> (elem (word_rotr 16 (w :: 64 word)) i :: 8 word) = elem w ((i + 2) mod 8)"
  using elem_8_rotr [where k = 8 and s = 3 and w = w and i = i]
        elem_8_rotr [where k = 8 and s = 2 and w = w and i = i]
  by simp_all

lemma elem_8_rotr_32:
  "i < 4 \<Longrightarrow> (elem (word_rotr 16 (w :: 32 word)) i :: 8 word) = elem w ((i + 2) mod 4)"
  "i < 4 \<Longrightarrow> (elem (word_rotr 8 (w :: 32 word)) i :: 8 word) = elem w ((i + 1) mod 4)"
  using elem_8_rotr [where k = 4 and s = 2 and w = w and i = i]
        elem_8_rotr [where k = 4 and s = 1 and w = w and i = i]
  by simp_all

lemma elem_8_build_64:
  "j < 16 \<Longrightarrow> (elem (build 2 f :: m128i) j :: 8 word) = elem (f (j div 8) :: 64 word) (j mod 8)"
  by (subst elem_8_of_64) (simp add: elem_build_lt less_mult_imp_div_less)

lemma elem_8_build_32:
  "j < 16 \<Longrightarrow> (elem (build 4 f :: m128i) j :: 8 word) = elem (f (j div 4) :: 32 word) (j mod 4)"
proof -
  assume j: "j < 16"
  have "(elem (build 4 f :: m128i) j :: 8 word)
      = elem (elem (build 4 f :: m128i) (j div 4) :: 32 word) (j mod 4)"
    by (simp add: elem_elem [where k = 4])
  then show ?thesis using j by (simp add: elem_build_lt less_mult_imp_div_less)
qed

lemma elem_8_in_64:
  "i < 8 \<Longrightarrow> (elem (elem (x :: 'a::len word) j :: 64 word) i :: 8 word) = elem x (j * 8 + i)"
  by (rule elem_elem) simp_all

lemma elem_8_in_32:
  "i < 4 \<Longrightarrow> (elem (elem (x :: 'a::len word) j :: 32 word) i :: 8 word) = elem x (j * 4 + i)"
  by (rule elem_elem) simp_all

lemma elem_8_set_epi64x:
  "j < 16 \<Longrightarrow> (elem (x86_mm_set_epi64x hi lo) j :: 8 word) = elem ([lo, hi] ! (j div 8)) (j mod 8)"
  by (subst elem_8_of_64) (simp add: x86_mm_set_epi64x_def elem_pack less_mult_imp_div_less)

lemma byte_rotate_shuffles:
  "x86_mm_shuffle_epi8 v (x86_mm_set_epi64x 0x0a09080f0e0d0c0b 0x0201000706050403)
     = build 16 (\<lambda>j. elem v (8 * (j div 8) + (j + 3) mod 8) :: 8 word)"
  "x86_mm_shuffle_epi8 v (x86_mm_set_epi64x 0x09080f0e0d0c0b0a 0x0100070605040302)
     = build 16 (\<lambda>j. elem v (8 * (j div 8) + (j + 2) mod 8) :: 8 word)"
  "x86_mm_shuffle_epi8 v (x86_mm_set_epi64x 0x0d0c0f0e09080b0a 0x0504070601000302)
     = build 16 (\<lambda>j. elem v (4 * (j div 4) + (j + 2) mod 4) :: 8 word)"
  "x86_mm_shuffle_epi8 v (x86_mm_set_epi64x 0x0c0f0e0d080b0a09 0x0407060500030201)
     = build 16 (\<lambda>j. elem v (4 * (j div 4) + (j + 1) mod 4) :: 8 word)"
  by (rule vec_eq_map [where n = 16 and 'b = 8];
      simp add: upt_16 elem_shuffle_epi8 elem_8_set_epi64x elem_numeral elem_build_lt
        numeral_2_eq_2 [symmetric])+

lemma byte_rotate_rotations:
  "build 2 (\<lambda>j. word_rotr 24 (elem v j :: 64 word))
     = (build 16 (\<lambda>j. elem v (8 * (j div 8) + (j + 3) mod 8) :: 8 word) :: m128i)"
  "build 2 (\<lambda>j. word_rotr 16 (elem v j :: 64 word))
     = (build 16 (\<lambda>j. elem v (8 * (j div 8) + (j + 2) mod 8) :: 8 word) :: m128i)"
  "build 4 (\<lambda>j. word_rotr 16 (elem v j :: 32 word))
     = (build 16 (\<lambda>j. elem v (4 * (j div 4) + (j + 2) mod 4) :: 8 word) :: m128i)"
  "build 4 (\<lambda>j. word_rotr 8 (elem v j :: 32 word))
     = (build 16 (\<lambda>j. elem v (4 * (j div 4) + (j + 1) mod 4) :: 8 word) :: m128i)"
  by (rule vec_eq_map [where n = 16 and 'b = 8];
      simp add: upt_16 elem_8_build_64 elem_8_build_32 elem_8_rotr_64 elem_8_rotr_32
        elem_8_in_64 elem_8_in_32 elem_build_lt numeral_2_eq_2 [symmetric])+

lemma byte_rotate_any_target:
  "mm128_shuflr64_24 t v = build 16 (\<lambda>j. elem v (8 * (j div 8) + (j + 3) mod 8) :: 8 word)"
  "mm128_shuflr64_16 t v = build 16 (\<lambda>j. elem v (8 * (j div 8) + (j + 2) mod 8) :: 8 word)"
  "mm128_swap32_16 t v = build 16 (\<lambda>j. elem v (4 * (j div 4) + (j + 2) mod 4) :: 8 word)"
  "mm128_shuflr32_8 t v = build 16 (\<lambda>j. elem v (4 * (j div 4) + (j + 1) mod 4) :: 8 word)"
  by (simp_all add: mm128_shuflr64_24_def mm128_shuflr64_16_def mm128_swap32_16_def
      mm128_shuflr32_8_def byte_rotate_shuffles mm128_ror_64_elems mm128_ror_32_elems
      byte_rotate_rotations)

text \<open>
  Every operation of the 128 bit header that returns a vector or a scalar, or stores
  vectors, and has more than one implementation selected by the capability macros gives
  bit-identical results on any two targets \<open>t\<close> and \<open>t'\<close>: the 64 and 32 bit rotates for a
  count in range, the endian swaps and the block swaps, the two-vector shuffle-rotates
  and the in-place pair rotates, the three input logic, the byte rotates within
  elements, \<open>m128_const_64\<close>, the moves and \<open>m128_neg1\<close>; and \<open>mm128_diagonal_32\<close> where
  it is defined and the names in its body are bound to the blend instructions.
\<close>

lemma operations_agree_between_targets:
  assumes "0 \<le> c"
  shows
  "(c < 64 \<longrightarrow> mm128_ror_64 t v c = mm128_ror_64 t' v c \<and>
                mm128_rol_64 t v c = mm128_rol_64 t' v c) \<and>
   (c < 32 \<longrightarrow> mm128_ror_32 t v c = mm128_ror_32 t' v c \<and>
                mm128_rol_32 t v c = mm128_rol_32 t' v c) \<and>
   mm128_bswap_64 t v = mm128_bswap_64 t' v \<and>
   mm128_bswap_32 t v = mm128_bswap_32 t' v \<and>
   mm128_bswap_16 t v = mm128_bswap_16 t' v \<and>
   mm128_block_bswap_64 t mem d s = mm128_block_bswap_64 t' mem d s \<and>
   mm128_block_bswap_32 t mem d s = mm128_block_bswap_32 t' mem d s \<and>
   mm128_shufl2r_64 t v v2 = mm128_shufl2r_64 t' v v2 \<and>
   mm128_shufl2l_64 t v v2 = mm128_shufl2l_64 t' v v2 \<and>
   mm128_vror256_64 t (v, v2) = mm128_vror256_64 t' (v, v2) \<and>
   mm128_vrol256_64 t (v, v2) = mm128_vrol256_64 t' (v, v2) \<and>
   mm128_xor3 t v v2 v3 = mm128_xor3 t' v v2 v3 \<and>
   mm128_xorand t v v2 v3 = mm128_xorand t' v v2 v3 \<and>
   mm128_shuflr64_24 t v = mm128_shuflr64_24 t' v \<and>
   mm128_shuflr64_16 t v = mm128_shuflr64_16 t' v \<and>
   mm128_swap32_16 t v = mm128_swap32_16 t' v \<and>
   mm128_shuflr32_8 t v = mm128_shuflr32_8 t' v \<and>
   m128_const_64 t hi lo = m128_const_64 t' hi lo \<and>
   mm128_mov64_128 t hi = mm128_mov64_128 t' hi \<and>
   mm128_mov32_128 t x = mm128_mov32_128 t' x \<and>
   u64_mov128_64 t v = u64_mov128_64 t' v \<and>
   u32_mov128_32 t v = u32_mov128_32 t' v \<and>
   mm128_neg1_fn t = mm128_neg1_fn t' \<and>
   ((AVX2 t \<or> SSE4_1 t) \<and> (AVX2 t' \<or> SSE4_1 t') \<longrightarrow>
      mm128_diagonal_32 t x86_mm_blend_epi32 x86_mm_blend_epi16 v3 v2 v v0 v3 v2 v v0
      = mm128_diagonal_32 t' x86_mm_blend_epi32 x86_mm_blend_epi16 v3 v2 v v0 v3 v2 v v0)"
proof (intro conjI impI)
  assume "c < 64"
  then show "mm128_ror_64 t v c = mm128_ror_64 t' v c"
    and "mm128_rol_64 t v c = mm128_rol_64 t' v c"
    using assms by (simp_all add: mm128_ror_64_elems mm128_rol_64_elems)
next
  assume "c < 32"
  then show "mm128_ror_32 t v c = mm128_ror_32 t' v c"
    and "mm128_rol_32 t v c = mm128_rol_32 t' v c"
    using assms by (simp_all add: mm128_ror_32_elems mm128_rol_32_elems)
next
  show "mm128_bswap_64 t v = mm128_bswap_64 t' v"
    and "mm128_bswap_32 t v = mm128_bswap_32 t' v"
    and "mm128_bswap_16 t v = mm128_bswap_16 t' v"
    by (simp_all add: mm128_bswap_bytes)
  show "mm128_block_bswap_64 t mem d s = mm128_block_bswap_64 t' mem d s"
    and "mm128_block_bswap_32 t mem d s = mm128_block_bswap_32 t' mem d s"
    by (simp_all only: block_bswap_any_target)
  show "mm128_shufl2r_64 t v v2 = mm128_shufl2r_64 t' v v2"
    and "mm128_shufl2l_64 t v v2 = mm128_shufl2l_64 t' v v2"
    by (simp_all only: shufl2_any_target)
  show "mm128_vror256_64 t (v, v2) = mm128_vror256_64 t' (v, v2)"
    and "mm128_vrol256_64 t (v, v2) = mm128_vrol256_64 t' (v, v2)"
    by (simp_all only: vrot256_any_target)
  show "mm128_xor3 t v v2 v3 = mm128_xor3 t' v v2 v3"
    and "mm128_xorand t v v2 v3 = mm128_xorand t' v v2 v3"
    by (simp_all only: ternary_any_target)
  show "mm128_shuflr64_24 t v = mm128_shuflr64_24 t' v"
    and "mm128_shuflr64_16 t v = mm128_shuflr64_16 t' v"
    and "mm128_swap32_16 t v = mm128_swap32_16 t' v"
    and "mm128_shuflr32_8 t v = mm128_shuflr32_8 t' v"
    by (simp_all only: byte_rotate_any_target)
  show "m128_const_64 t hi lo = m128_const_64 t' hi lo"
    by (simp only: m128_const_64_pack)
  show "mm128_mov64_128 t hi = mm128_mov64_128 t' hi"
    and "mm128_mov32_128 t x = mm128_mov32_128 t' x"
    and "u64_mov128_64 t v = u64_mov128_64 t' v"
    and "u32_mov128_32 t v = u32_mov128_32 t' v"
    and "mm128_neg1_fn t = mm128_neg1_fn t'"
    by (simp_all add: mm128_mov64_128_def mm128_mov32_128_def u64_mov128_64_def
        u32_mov128_32_def mm128_neg1_fn_def)
next
  assume "(AVX2 t \<or> SSE4_1 t) \<and> (AVX2 t' \<or> SSE4_1 t')"
  then show "mm128_diagonal_32 t x86_mm_blend_epi32 x86_mm_blend_epi16 v3 v2 v v0 v3 v2 v v0
      = mm128_diagonal_32 t' x86_mm_blend_epi32 x86_mm_blend_epi16 v3 v2 v v0 v3 v2 v v0"
    by (simp only: mm128_diagonal_32_in_intended_scope if_True)
qed

text \<open>
  C1. An operation offered on more than one capability tier is to give bit-identical
  results on all of them. The operations above do. The double buffered rotates do not:
  at \<open>v1 = v0 = 1\<close> and \<open>c = 1\<close> the baseline target leaves the rotated pair in the two
  variables and the target with \<open>__AVX512VL__\<close> leaves \<open>(1, 1)\<close>.
\<close>

theorem rorx2_differs_between_targets:
  "mm128_rorx2_64 sse2_target (1, 1) 1 = (0x8000000000000000, 0x8000000000000000) \<and>
   mm128_rorx2_64 avx512_target (1, 1) 1 = (1, 1) \<and>
   mm128_rolx2_64 sse2_target (1, 1) 1 = (2, 2) \<and>
   mm128_rolx2_64 avx512_target (1, 1) 1 = (1, 1) \<and>
   mm128_rorx2_32 sse2_target (1, 1) 1 = (0x80000000, 0x80000000) \<and>
   mm128_rorx2_32 avx512_target (1, 1) 1 = (1, 1) \<and>
   mm128_rolx2_32 sse2_target (1, 1) 1 = (2, 2) \<and>
   mm128_rolx2_32 avx512_target (1, 1) 1 = (1, 1)"
  by code_simp

end
